theory Spec2Isabelle
  imports Main "HOL-Library.Sublist"
begin

section \<open>Data model\<close>

text \<open>
  The session documents handled by \<^verbatim>\<open>backend/controllers/sessionController.js\<close> and read by
  \<^verbatim>\<open>backend/services/emailService.js\<close>. A JavaScript \<^verbatim>\<open>Date\<close> is its number of milliseconds
  since the epoch; a JavaScript string is the list of the bytes of its UTF-8 encoding, as it
  arrives in the JSON body of a request (a character of ASCII is one byte); a request field
  that may be missing (\<^verbatim>\<open>undefined\<close>) is an \<open>option\<close>.
\<close>

type_synonym time = int

datatype sender = User | Bot

datatype status = Active | Ended | Expired

type_synonym metadata = "(string \<times> string) list"

record message =
  sender :: sender
  msgText :: string
  timestamp :: time
  metadata :: "metadata option"

record userInfo =
  fullName :: string
  email :: string
  companyName :: string
  projectName :: string
  supplierType :: string
  city :: "string option"
  country :: "string option"

record session =
  sessionId :: string
  userInfo :: userInfo
  messages :: "message list"
  status :: status
  createdAt :: time
  lastActivity :: time
  endedAt :: "time option"

text \<open>The \<^verbatim>\<open>userInfo\<close> object of a request body: every field may be missing.\<close>

record reqUserInfo =
  r_fullName :: "string option"
  r_email :: "string option"
  r_companyName :: "string option"
  r_projectName :: "string option"
  r_supplierType :: "string option"
  r_city :: "string option"
  r_country :: "string option"

text \<open>
  The collection of session documents. A document's position in the list stands for its
  \<^verbatim>\<open>_id\<close>: \<^verbatim>\<open>findOne\<close> answers the first document that satisfies the filter together with
  its position, and saving a document writes it back at that position.
\<close>

type_synonym store = "session list"

fun findOne :: "(session \<Rightarrow> bool) \<Rightarrow> store \<Rightarrow> (nat \<times> session) option" where
  "findOne P [] = None"
| "findOne P (s # ss) =
     (if P s then Some (0, s)
      else (case findOne P ss of None \<Rightarrow> None | Some (i, t) \<Rightarrow> Some (Suc i, t)))"

text \<open>The filter \<^verbatim>\<open>{ sessionId, status: 'active' }\<close> of the controller's queries.\<close>

definition activeWithId :: "string \<Rightarrow> session \<Rightarrow> bool" where
  "activeWithId sid s \<longleftrightarrow> sessionId s = sid \<and> status s = Active"

subsection \<open>JavaScript helpers\<close>

text \<open>
  The white space that \<^verbatim>\<open>String.prototype.trim\<close> and the class \<^verbatim>\<open>\s\<close> of a regular expression
  (used by the \<^verbatim>\<open>trim()\<close> sanitizer of the routes) strip: WhiteSpace and LineTerminator of
  ECMAScript. A string is the list of the bytes of its UTF-8 encoding, so a white-space
  code point is one, two or three bytes:
  \<^item> one byte: U+0009 to U+000D and U+0020;
  \<^item> two bytes: U+00A0 (\<^verbatim>\<open>C2 A0\<close>);
  \<^item> three bytes: U+1680 (\<^verbatim>\<open>E1 9A 80\<close>), U+2000 to U+200A (\<^verbatim>\<open>E2 80 80\<close> to \<^verbatim>\<open>E2 80 8A\<close>),
    U+2028 (\<^verbatim>\<open>E2 80 A8\<close>), U+2029 (\<^verbatim>\<open>E2 80 A9\<close>), U+202F (\<^verbatim>\<open>E2 80 AF\<close>),
    U+205F (\<^verbatim>\<open>E2 81 9F\<close>), U+3000 (\<^verbatim>\<open>E3 80 80\<close>) and U+FEFF (\<^verbatim>\<open>EF BB BF\<close>).
\<close>

definition whiteSpace1 :: "char \<Rightarrow> bool" where
  "whiteSpace1 a \<longleftrightarrow> a \<in> {CHR 0x09, CHR 0x0A, CHR 0x0B, CHR 0x0C, CHR 0x0D, CHR 0x20}"

definition whiteSpace2 :: "char \<Rightarrow> char \<Rightarrow> bool" where
  "whiteSpace2 a b \<longleftrightarrow> a = CHR 0xC2 \<and> b = CHR 0xA0"

definition whiteSpace3 :: "char \<Rightarrow> char \<Rightarrow> char \<Rightarrow> bool" where
  "whiteSpace3 a b c \<longleftrightarrow>
     a = CHR 0xE1 \<and> b = CHR 0x9A \<and> c = CHR 0x80
     \<or> a = CHR 0xE2 \<and> b = CHR 0x80
         \<and> c \<in> {CHR 0x80, CHR 0x81, CHR 0x82, CHR 0x83, CHR 0x84, CHR 0x85, CHR 0x86, CHR 0x87,
                CHR 0x88, CHR 0x89, CHR 0x8A, CHR 0xA8, CHR 0xA9, CHR 0xAF}
     \<or> a = CHR 0xE2 \<and> b = CHR 0x81 \<and> c = CHR 0x9F
     \<or> a = CHR 0xE3 \<and> b = CHR 0x80 \<and> c = CHR 0x80
     \<or> a = CHR 0xEF \<and> b = CHR 0xBB \<and> c = CHR 0xBF"

text \<open>The white space at the start of a string is removed, code point by code point.\<close>

fun trimStart :: "string \<Rightarrow> string" where
  "trimStart (a # b # c # s) =
     (if whiteSpace1 a then trimStart (b # c # s)
      else if whiteSpace2 a b then trimStart (c # s)
      else if whiteSpace3 a b c then trimStart s
      else a # b # c # s)"
| "trimStart [a, b] =
     (if whiteSpace1 a then trimStart [b] else if whiteSpace2 a b then [] else [a, b])"
| "trimStart [a] = (if whiteSpace1 a then [] else [a])"
| "trimStart [] = []"

text \<open>
  The same from the end, on the reversed string: its first byte is the last byte of the
  string.
\<close>

fun trimEndReversed :: "string \<Rightarrow> string" where
  "trimEndReversed (c # b # a # s) =
     (if whiteSpace1 c then trimEndReversed (b # a # s)
      else if whiteSpace2 b c then trimEndReversed (a # s)
      else if whiteSpace3 a b c then trimEndReversed s
      else c # b # a # s)"
| "trimEndReversed [c, b] =
     (if whiteSpace1 c then trimEndReversed [b] else if whiteSpace2 b c then [] else [c, b])"
| "trimEndReversed [c] = (if whiteSpace1 c then [] else [c])"
| "trimEndReversed [] = []"

text \<open>\<^verbatim>\<open>String.prototype.trim\<close>, and the \<^verbatim>\<open>trim()\<close> sanitizer of the validation chains.\<close>

definition trim :: "string \<Rightarrow> string" where
  "trim s = rev (trimEndReversed (rev (trimStart s)))"

text \<open>\<^verbatim>\<open>!x\<close> for a string field: true when the field is missing or the empty string.\<close>

fun falsy :: "string option \<Rightarrow> bool" where
  "falsy None = True"
| "falsy (Some s) = (s = [])"

section \<open>The Session model's methods\<close>

text \<open>
  Modelled from the spec: the instance method \<^verbatim>\<open>Session.addMessage\<close> of
  \<^verbatim>\<open>backend/models/Session.js\<close>, which the controller calls and which is not among the
  sources. The spec: on success, atomically (a) appends the message, (b) sets
  \<^verbatim>\<open>lastActivity=now\<close>; a message has a sender, a text, a timestamp and optional metadata.
\<close>

definition addMessage :: "time \<Rightarrow> sender \<Rightarrow> string \<Rightarrow> metadata option \<Rightarrow> session \<Rightarrow> session" where
  "addMessage now who txt md s =
     s\<lparr>messages := messages s @ [\<lparr>sender = who, msgText = txt, timestamp = now, metadata = md\<rparr>],
       lastActivity := now\<rparr>"

text \<open>
  Modelled from the spec: the instance method \<^verbatim>\<open>Session.endSession\<close> of
  \<^verbatim>\<open>backend/models/Session.js\<close>, not among the sources. The spec: transitions
  \<^verbatim>\<open>active \<rightarrow> ended\<close>, sets \<^verbatim>\<open>endedAt=now\<close>.
\<close>

definition endSessionDoc :: "time \<Rightarrow> session \<Rightarrow> session" where
  "endSessionDoc now s = s\<lparr>status := Ended, endedAt := Some now\<rparr>"

text \<open>
  Modelled from the spec: the defaults of the Session schema, which \<^verbatim>\<open>new Session({...})\<close>
  applies to the fields the controller does not give; the schema is not among the sources.
  The spec: a new session has \<^verbatim>\<open>createdAt=lastActivity=now\<close>; \<^verbatim>\<open>endedAt\<close> is optional and
  absent until the session is terminal.
\<close>

definition newSession :: "time \<Rightarrow> string \<Rightarrow> userInfo \<Rightarrow> message list \<Rightarrow> status \<Rightarrow> session" where
  "newSession now sid ui msgs stat =
     \<lparr>sessionId = sid, userInfo = ui, messages = msgs, status = stat,
      createdAt = now, lastActivity = now, endedAt = None\<rparr>"

text \<open>
  Modelled from the spec: the condition of the inactivity sweep, which is not among the
  sources. The spec: a session with \<^verbatim>\<open>status=active\<close> and \<^verbatim>\<open>now - lastActivity > timeout\<close>.
\<close>

definition isStale :: "time \<Rightarrow> time \<Rightarrow> session \<Rightarrow> bool" where
  "isStale now timeout s \<longleftrightarrow> status s = Active \<and> now - lastActivity s > timeout"

text \<open>
  Modelled from the spec: the inactivity sweep \<^verbatim>\<open>sweepExpired(timeout)\<close>, which is not among
  the sources. The spec: for every session with \<^verbatim>\<open>status=active\<close> and
  \<^verbatim>\<open>now - lastActivity > timeout\<close>, transitions it to \<^verbatim>\<open>expired\<close>, sets \<^verbatim>\<open>endedAt=now\<close>, and
  emits exactly one "session-expired" notification per session. The result is the new store
  and the ids of the sessions notified, one for each session expired.
\<close>

definition sweepExpired :: "time \<Rightarrow> time \<Rightarrow> store \<Rightarrow> store \<times> string list" where
  "sweepExpired now timeout st =
     (map (\<lambda>s. if isStale now timeout s then s\<lparr>status := Expired, endedAt := Some now\<rparr> else s) st,
      map sessionId (filter (isStale now timeout) st))"

section \<open>The session controller\<close>

text \<open>
  The answers of the handlers: the HTTP status and the fields of the JSON body. The virtual
  properties \<^verbatim>\<open>messageCount\<close> and \<^verbatim>\<open>duration\<close> of the Session model are not among the
  sources and are left out of the bodies. The handlers' \<^verbatim>\<open>catch\<close> branches (HTTP 500) are
  taken when a call to the database throws; the store here is a value and its operations do
  not throw.
\<close>

datatype response =
    Created string userInfo status time
  | OkMessages string time "message list"
  | OkEnded string status "time option"
  | OkActivity string time
  | BadRequest string
  | BadRequestErrors "string list"
  | NotFound string
  | OkEmail string
  | ServerError string string

text \<open>The HTTP status each answer is sent with (\<^verbatim>\<open>res.status(...)\<close>).\<close>

fun httpStatus :: "response \<Rightarrow> nat" where
  "httpStatus (Created sid ui stat t) = 201"
| "httpStatus (OkMessages sid t ms) = 200"
| "httpStatus (OkEnded sid stat t) = 200"
| "httpStatus (OkActivity sid t) = 200"
| "httpStatus (BadRequest msg) = 400"
| "httpStatus (BadRequestErrors errors) = 400"
| "httpStatus (NotFound msg) = 404"
| "httpStatus (OkEmail msg) = 200"
| "httpStatus (ServerError msg err) = 500"

text \<open>\<^verbatim>\<open>createSession\<close>, lines 14-69. \<open>uuid\<close> is the value \<^verbatim>\<open>uuidv4()\<close> returns.\<close>

definition createSession :: "string \<Rightarrow> time \<Rightarrow> reqUserInfo option \<Rightarrow> store \<Rightarrow> store \<times> response" where
  "createSession uuid now body st =
     (case body of
        None \<Rightarrow> (st, BadRequest ''Missing required user information fields'')
      | Some ui \<Rightarrow>
          (case (r_fullName ui, r_email ui, r_companyName ui, r_supplierType ui) of
             (Some fn, Some em, Some cn, Some sty) \<Rightarrow>
               if fn = [] \<or> em = [] \<or> cn = [] \<or> sty = []
               then (st, BadRequest ''Missing required user information fields'')
               else
                 let session = newSession now uuid
                       \<lparr>fullName = fn, email = em, companyName = cn,
                        projectName = (case r_projectName ui of
                                         None \<Rightarrow> ''N/A''
                                       | Some p \<Rightarrow> if p = [] then ''N/A'' else p),
                        supplierType = sty, city = r_city ui, country = r_country ui\<rparr>
                       [] Active
                 in (st @ [session],
                     Created (sessionId session) (userInfo session) (status session) (createdAt session))
           | _ \<Rightarrow> (st, BadRequest ''Missing required user information fields'')))"

text \<open>\<^verbatim>\<open>addUserMessage\<close>, lines 75-121.\<close>

definition addUserMessage :: "time \<Rightarrow> string \<Rightarrow> string option \<Rightarrow> store \<Rightarrow> store \<times> response" where
  "addUserMessage now sid txt st =
     (case txt of
        None \<Rightarrow> (st, BadRequest ''Message text is required'')
      | Some t \<Rightarrow>
          if t = [] \<or> length (trim t) = 0 then (st, BadRequest ''Message text is required'')
          else
            (case findOne (activeWithId sid) st of
               None \<Rightarrow> (st, NotFound ''Active session not found'')
             | Some (i, s) \<Rightarrow>
                 let s' = addMessage now User (trim t) None s
                 in (st[i := s'], OkMessages (sessionId s') (lastActivity s') (messages s'))))"

text \<open>\<^verbatim>\<open>addBotMessage\<close>, lines 127-173; \<^verbatim>\<open>metadata || {}\<close> is the empty object when the field is missing.\<close>

definition addBotMessage ::
  "time \<Rightarrow> string \<Rightarrow> string option \<Rightarrow> metadata option \<Rightarrow> store \<Rightarrow> store \<times> response" where
  "addBotMessage now sid txt md st =
     (case txt of
        None \<Rightarrow> (st, BadRequest ''Message text is required'')
      | Some t \<Rightarrow>
          if t = [] \<or> length (trim t) = 0 then (st, BadRequest ''Message text is required'')
          else
            (case findOne (activeWithId sid) st of
               None \<Rightarrow> (st, NotFound ''Active session not found'')
             | Some (i, s) \<Rightarrow>
                 let s' = addMessage now Bot (trim t) (Some (case md of None \<Rightarrow> [] | Some m \<Rightarrow> m)) s
                 in (st[i := s'], OkMessages (sessionId s') (lastActivity s') (messages s'))))"

text \<open>
  \<^verbatim>\<open>addChatInteraction\<close>, lines 179-226. The two calls of \<^verbatim>\<open>addMessage\<close> read the clock one
  after the other (\<open>now1\<close>, then \<open>now2\<close>), and each saves the document.
\<close>

definition addChatInteraction ::
  "time \<Rightarrow> time \<Rightarrow> string \<Rightarrow> string option \<Rightarrow> string option \<Rightarrow> metadata option \<Rightarrow> store
     \<Rightarrow> store \<times> response" where
  "addChatInteraction now1 now2 sid userMessage botMessage md st =
     (case (userMessage, botMessage) of
        (Some um, Some bm) \<Rightarrow>
          if um = [] \<or> bm = []
          then (st, BadRequest ''Both userMessage and botMessage are required'')
          else
            (case findOne (activeWithId sid) st of
               None \<Rightarrow> (st, NotFound ''Active session not found'')
             | Some (i, s) \<Rightarrow>
                 let s1 = addMessage now1 User (trim um) None s;
                     st1 = st[i := s1];
                     s2 = addMessage now2 Bot (trim bm) (Some (case md of None \<Rightarrow> [] | Some m \<Rightarrow> m)) s1
                 in (st1[i := s2], OkMessages (sessionId s2) (lastActivity s2) (messages s2)))
      | _ \<Rightarrow> (st, BadRequest ''Both userMessage and botMessage are required''))"

text \<open>\<^verbatim>\<open>endSession\<close>, lines 306-342.\<close>

definition endSession :: "time \<Rightarrow> string \<Rightarrow> store \<Rightarrow> store \<times> response" where
  "endSession now sid st =
     (case findOne (activeWithId sid) st of
        None \<Rightarrow> (st, NotFound ''Active session not found'')
      | Some (i, s) \<Rightarrow>
          let s' = endSessionDoc now s
          in (st[i := s'], OkEnded (sessionId s') (status s') (endedAt s')))"

text \<open>
  \<^verbatim>\<open>updateActivity\<close>, lines 397-430: \<^verbatim>\<open>findOneAndUpdate\<close> with the same filter sets
  \<^verbatim>\<open>lastActivity\<close> on the first matching document and answers the updated document.
\<close>

definition updateActivity :: "time \<Rightarrow> string \<Rightarrow> store \<Rightarrow> store \<times> response" where
  "updateActivity now sid st =
     (case findOne (activeWithId sid) st of
        None \<Rightarrow> (st, NotFound ''Active session not found'')
      | Some (i, s) \<Rightarrow>
          let s' = s\<lparr>lastActivity := now\<rparr>
          in (st[i := s'], OkActivity (sessionId s') (lastActivity s')))"

section \<open>The route \<^verbatim>\<open>POST /api/sessions\<close>\<close>

text \<open>
  The validation chain of the session routes (the routes file reproduced in
  \<^verbatim>\<open>API_DOCUMENTATION.md\<close>, lines 686-699), run before the controller. A validator reads a
  missing field as the empty string; \<^verbatim>\<open>isEmail\<close> is the validator of the library, taken as a
  parameter. The \<^verbatim>\<open>trim()\<close> sanitizers write the trimmed value back into the body.
\<close>

definition field :: "(reqUserInfo \<Rightarrow> string option) \<Rightarrow> reqUserInfo option \<Rightarrow> string" where
  "field f body = (case body of None \<Rightarrow> [] | Some ui \<Rightarrow> (case f ui of None \<Rightarrow> [] | Some v \<Rightarrow> v))"

definition createSessionErrors :: "(string \<Rightarrow> bool) \<Rightarrow> reqUserInfo option \<Rightarrow> string list" where
  "createSessionErrors isEmail body =
     (if body = None then [''userInfo must be an object''] else []) @
     (if trim (field r_fullName body) = [] then [''Full name is required''] else []) @
     (if \<not> isEmail (field r_email body) then [''Valid email is required''] else []) @
     (if trim (field r_companyName body) = [] then [''Company name is required''] else []) @
     (if field r_supplierType body \<notin> {''New Supplier'', ''Current Supplier''}
      then [''Supplier type must be New Supplier or Current Supplier''] else [])"

definition sanitizeCreate :: "reqUserInfo \<Rightarrow> reqUserInfo" where
  "sanitizeCreate ui =
     ui\<lparr>r_fullName := map_option trim (r_fullName ui),
        r_companyName := map_option trim (r_companyName ui)\<rparr>"

text \<open>
  The \<^verbatim>\<open>validate\<close> middleware answers 400 with the collected errors, or passes the sanitized
  request on to \<^verbatim>\<open>createSession\<close>.
\<close>

definition postSessions ::
  "(string \<Rightarrow> bool) \<Rightarrow> string \<Rightarrow> time \<Rightarrow> reqUserInfo option \<Rightarrow> store \<Rightarrow> store \<times> response" where
  "postSessions isEmail uuid now body st =
     (let errors = createSessionErrors isEmail body
      in if errors \<noteq> [] then (st, BadRequestErrors errors)
         else createSession uuid now (map_option sanitizeCreate body) st)"

section \<open>Sequences of operations\<close>

text \<open>
  A request to the session lifecycle together with the clock readings it makes and, for
  \<^verbatim>\<open>createSession\<close>, the identifier that \<^verbatim>\<open>uuidv4()\<close> draws. \<open>Sweep now timeout\<close> is one pass of
  the inactivity sweep.
\<close>

datatype request =
    CreateSession time string "reqUserInfo option"
  | AddUserMessage time string "string option"
  | AddBotMessage time string "string option" "metadata option"
  | AddChatInteraction time time string "string option" "string option" "metadata option"
  | EndSession time string
  | UpdateActivity time string
  | Sweep time time

fun handle :: "request \<Rightarrow> store \<Rightarrow> store" where
  "handle (CreateSession now uuid body) st = fst (createSession uuid now body st)"
| "handle (AddUserMessage now sid txt) st = fst (addUserMessage now sid txt st)"
| "handle (AddBotMessage now sid txt md) st = fst (addBotMessage now sid txt md st)"
| "handle (AddChatInteraction now1 now2 sid um bm md) st =
     fst (addChatInteraction now1 now2 sid um bm md st)"
| "handle (EndSession now sid) st = fst (endSession now sid st)"
| "handle (UpdateActivity now sid) st = fst (updateActivity now sid st)"
| "handle (Sweep now timeout) st = fst (sweepExpired now timeout st)"

fun clockReadings :: "request \<Rightarrow> time list" where
  "clockReadings (CreateSession now uuid body) = [now]"
| "clockReadings (AddUserMessage now sid txt) = [now]"
| "clockReadings (AddBotMessage now sid txt md) = [now]"
| "clockReadings (AddChatInteraction now1 now2 sid um bm md) = [now1, now2]"
| "clockReadings (EndSession now sid) = [now]"
| "clockReadings (UpdateActivity now sid) = [now]"
| "clockReadings (Sweep now timeout) = [now]"

fun run :: "store \<Rightarrow> request list \<Rightarrow> store" where
  "run st [] = st"
| "run st (r # rs) = run (handle r st) rs"

section \<open>The email service\<close>

subsection \<open>The HTML transcript\<close>

text \<open>
  \<^verbatim>\<open>escapeHtml\<close>, \<^verbatim>\<open>emailService.js\<close> lines 380-389: \<^verbatim>\<open>text.replace(/[&<>"']/g, (m) => map[m])\<close>
  scans the text from left to right, puts the entry of \<^verbatim>\<open>map\<close> in place of each character
  of the class and copies every other character.
\<close>

definition escapeMap :: "char \<Rightarrow> string option" where
  \<open>escapeMap c =
     (if c = CHR ''&'' then Some ''&amp;''
      else if c = CHR ''<'' then Some ''&lt;''
      else if c = CHR ''>'' then Some ''&gt;''
      else if c = CHR 0x22 then Some ''&quot;''
      else if c = CHR 0x27 then Some ''&#039;''
      else None)\<close>

fun escapeHtml :: "string \<Rightarrow> string" where
  "escapeHtml [] = []"
| "escapeHtml (c # cs) = (case escapeMap c of Some e \<Rightarrow> e | None \<Rightarrow> [c]) @ escapeHtml cs"

text \<open>
  The body of the \<^verbatim>\<open>messages.forEach\<close> loop of \<^verbatim>\<open>buildHtmlSummary\<close>, lines 334-357: the HTML
  appended for one message. \<^verbatim>\<open>formatTimestamp\<close> (local-time formatting of a date) and
  \<^verbatim>\<open>JSON.stringify(\<cdot>, null, 2)\<close> are parameters; \<open>nl\<close> is the line feed of the template
  literals. \<open>messageOpenHtml\<close> is the first template literal up to the interpolated
  text, \<open>metadataHtml\<close> the block appended when the message has metadata.
\<close>

definition nl :: string where
  "nl = [CHR 0x0A]"

definition messageOpenHtml :: "(time \<Rightarrow> string) \<Rightarrow> message \<Rightarrow> string" where
  \<open>messageOpenHtml formatTimestamp msg =
     (let senderClass = (if sender msg = User then ''user'' else ''bot'');
          senderLabel = (if sender msg = User then ''User'' else ''Bot'');
          time = formatTimestamp (timestamp msg)
      in nl @ ''      <div class="message message-'' @ senderClass @ ''">'' @ nl @
         ''        <div class="message-header">'' @ nl @
         ''          <span class="message-sender message-sender-'' @ senderClass @ ''">'' @
              senderLabel @ ''</span>'' @ nl @
         ''          <span class="message-time">'' @ time @ ''</span>'' @ nl @
         ''        </div>'' @ nl @
         ''        <div class="message-text">'')\<close>

definition metadataHtml :: "(metadata \<Rightarrow> string) \<Rightarrow> message \<Rightarrow> string" where
  \<open>metadataHtml stringify msg =
     (case metadata msg of
        None \<Rightarrow> []
      | Some md \<Rightarrow>
          if length md > 0
          then nl @ ''        <div class="metadata">'' @ nl @
               ''          <strong>Metadata:</strong> '' @ escapeHtml (stringify md) @ nl @
               ''        </div>'' @ nl @
               ''        ''
          else [])\<close>

definition messageHtml :: "(time \<Rightarrow> string) \<Rightarrow> (metadata \<Rightarrow> string) \<Rightarrow> message \<Rightarrow> string" where
  \<open>messageHtml formatTimestamp stringify msg =
     messageOpenHtml formatTimestamp msg @ escapeHtml (msgText msg) @ ''</div>'' @ nl @ ''      '' @
     metadataHtml stringify msg @
     ''</div>''\<close>

text \<open>The transcript part of \<^verbatim>\<open>buildHtmlSummary\<close>, lines 331-358.\<close>

definition transcriptHtml :: "(time \<Rightarrow> string) \<Rightarrow> (metadata \<Rightarrow> string) \<Rightarrow> message list \<Rightarrow> string" where
  \<open>transcriptHtml formatTimestamp stringify msgs =
     (if length msgs = 0
      then ''<p style="color: #666; font-style: italic;">(No messages in this session)</p>''
      else concat (map (messageHtml formatTimestamp stringify) msgs))\<close>

text \<open>
  The "User Information" rows and the heading of the transcript, lines 312-329 of the
  template of \<^verbatim>\<open>buildHtmlSummary\<close>. The heading's pictograph is written as its UTF-8 bytes.
\<close>

definition userInfoHtml :: "userInfo \<Rightarrow> string" where
  \<open>userInfoHtml ui =
     ''      <div class="info-grid">'' @ nl @
     ''        <div class="info-label">Name:</div>'' @ nl @
     ''        <div class="info-value">'' @ fullName ui @ ''</div>'' @ nl @
     ''        '' @ nl @
     ''        <div class="info-label">Email:</div>'' @ nl @
     ''        <div class="info-value"><a href="mailto:'' @ email ui @ ''">'' @ email ui @
          ''</a></div>'' @ nl @
     ''        '' @ nl @
     ''        <div class="info-label">Company:</div>'' @ nl @
     ''        <div class="info-value">'' @ companyName ui @ ''</div>'' @ nl @
     ''        '' @ nl @
     ''        <div class="info-label">Supplier Type:</div>'' @ nl @
     ''        <div class="info-value">'' @ supplierType ui @ ''</div>'' @ nl @
     ''      </div>'' @ nl @
     ''    </div>'' @ nl @
     ''    '' @ nl @
     ''    <div class="section">'' @ nl @
     ''      <div class="section-title">'' @ [CHR 0xF0, CHR 0x9F, CHR 0x92, CHR 0xAC] @
          '' Conversation Transcript</div>'' @ nl @
     ''  ''\<close>

text \<open>
  \<^verbatim>\<open>buildHtmlSummary\<close>, lines 158-373. \<open>headHtml\<close> is the text of the template up to the
  "User Information" rows (lines 165-311: the document head with its style sheet and the
  "Session Information" section, which show the session id, the dates, the status and
  the number of messages), taken as given; \<open>generated\<close> is the clock reading of the
  footer.
\<close>

definition buildHtmlSummary ::
  "(time \<Rightarrow> string) \<Rightarrow> (metadata \<Rightarrow> string) \<Rightarrow> string \<Rightarrow> time \<Rightarrow> session \<Rightarrow> string" where
  \<open>buildHtmlSummary formatTimestamp stringify headHtml generated session =
     headHtml @ userInfoHtml (userInfo session) @
     transcriptHtml formatTimestamp stringify (messages session) @
     nl @ ''    </div>'' @ nl @
     ''    '' @ nl @
     ''    <div class="footer">'' @ nl @
     ''      <p>Generated on '' @ formatTimestamp generated @ ''</p>'' @ nl @
     ''      <p>Yazaki Chatbot System | Session Management</p>'' @ nl @
     ''    </div>'' @ nl @
     ''  </div>'' @ nl @
     ''</body>'' @ nl @
     ''</html>'' @ nl @
     ''  ''\<close>

text \<open>The characters that \<^verbatim>\<open>escapeHtml\<close> never leaves in its result.\<close>

definition isMarkup :: "char \<Rightarrow> bool" where
  \<open>isMarkup c \<longleftrightarrow> c \<in> {CHR ''<'', CHR ''>'', CHR 0x22, CHR 0x27}\<close>

subsection \<open>Sending the summary\<close>

text \<open>
  A thrown \<^verbatim>\<open>Error\<close> is \<open>Inl\<close> of its message. The environment variables that decide a branch,
  and the outcome of \<^verbatim>\<open>transporter.sendMail\<close> (it throws, or answers a message id), are
  given by the environment.
\<close>

record mailEnv =
  ADMIN_EMAIL :: "string option"
  MAIL_USER :: "string option"
  MAIL_PASS :: "string option"

record mailOptions =
  mailTo :: string
  subject :: string
  textContent :: string
  htmlContent :: string

text \<open>\<^verbatim>\<open>createTransporter\<close>, lines 14-31: the configuration is validated before the transport is made.\<close>

definition createTransporter :: "mailEnv \<Rightarrow> string + unit" where
  "createTransporter env =
     (if falsy (MAIL_USER env) \<or> falsy (MAIL_PASS env)
      then Inl ''Email configuration is missing. Please check MAIL_USER and MAIL_PASS in .env file.''
      else Inr ())"

text \<open>\<^verbatim>\<open>fetchSessionData\<close>, lines 39-52: a read of the store; the error is thrown again.\<close>

definition fetchSessionData :: "string \<Rightarrow> store \<Rightarrow> string + session" where
  "fetchSessionData sid st =
     (case findOne (\<lambda>s. sessionId s = sid) st of
        None \<Rightarrow> Inl (''Session not found: '' @ sid)
      | Some (i, session) \<Rightarrow> Inr session)"

text \<open>\<^verbatim>\<open>sendEmail\<close>, lines 399-425: answers the message id and the recipient.\<close>

definition sendEmail ::
  "mailEnv \<Rightarrow> (mailOptions \<Rightarrow> string + string) \<Rightarrow> string \<Rightarrow> string \<Rightarrow> string \<Rightarrow> string
     \<Rightarrow> string + (string \<times> string)" where
  "sendEmail env sendMail toEmail subj textC htmlC =
     (case createTransporter env of
        Inl error \<Rightarrow> Inl error
      | Inr transporter \<Rightarrow>
          (case sendMail \<lparr>mailTo = toEmail, subject = subj, textContent = textC, htmlContent = htmlC\<rparr> of
             Inl error \<Rightarrow> Inl error
           | Inr messageId \<Rightarrow> Inr (messageId, toEmail)))"

text \<open>
  What \<^verbatim>\<open>sendSummaryEmail\<close> returns: the confirmation (message, session id, message id,
  timestamp, recipient, message count, user email, user name) or the error details
  (message, session id, error, timestamp).
\<close>

datatype summaryResult =
    Confirmation string string string time string nat string string
  | Failure string string string time

text \<open>
  The \<^verbatim>\<open>try\<close> block of \<^verbatim>\<open>sendSummaryEmail\<close>, lines 440-481. The two builders of the content are
  parameters and may throw.
\<close>

definition sendSummaryEmailTry ::
  "mailEnv \<Rightarrow> (mailOptions \<Rightarrow> string + string) \<Rightarrow> (session \<Rightarrow> string + string)
     \<Rightarrow> (session \<Rightarrow> string + string) \<Rightarrow> time \<Rightarrow> string \<Rightarrow> store \<Rightarrow> string + summaryResult" where
  "sendSummaryEmailTry env sendMail buildPlain buildHtml now sid st =
     (case ADMIN_EMAIL env of
        None \<Rightarrow> Inl ''ADMIN_EMAIL not configured in .env file''
      | Some adminEmail \<Rightarrow>
          if adminEmail = [] then Inl ''ADMIN_EMAIL not configured in .env file''
          else
            (case fetchSessionData sid st of
               Inl error \<Rightarrow> Inl error
             | Inr session \<Rightarrow>
                 (case buildPlain session of
                    Inl error \<Rightarrow> Inl error
                  | Inr plainTextSummary \<Rightarrow>
                      (case buildHtml session of
                         Inl error \<Rightarrow> Inl error
                       | Inr htmlSummary \<Rightarrow>
                           let subj = ''Chat Summary - '' @ fullName (userInfo session) @ '' ('' @
                                 companyName (userInfo session) @ '') - Session '' @ take 8 sid
                           in (case sendEmail env sendMail adminEmail subj plainTextSummary htmlSummary of
                                 Inl error \<Rightarrow> Inl error
                               | Inr (messageId, recipient) \<Rightarrow>
                                   Inr (Confirmation (''Email sent successfully to '' @ adminEmail)
                                          sid messageId now adminEmail (length (messages session))
                                          (email (userInfo session)) (fullName (userInfo session))))))))"

text \<open>\<^verbatim>\<open>try { ... } catch (error) { ... }\<close>: the handler takes over what the body throws.\<close>

definition tryCatch :: "string + 'a \<Rightarrow> (string \<Rightarrow> string + 'a) \<Rightarrow> string + 'a" where
  "tryCatch body handler = (case body of Inl error \<Rightarrow> handler error | Inr v \<Rightarrow> Inr v)"

text \<open>\<^verbatim>\<open>sendSummaryEmail\<close>, lines 437-495.\<close>

definition sendSummaryEmail ::
  "mailEnv \<Rightarrow> (mailOptions \<Rightarrow> string + string) \<Rightarrow> (session \<Rightarrow> string + string)
     \<Rightarrow> (session \<Rightarrow> string + string) \<Rightarrow> time \<Rightarrow> string \<Rightarrow> store \<Rightarrow> string + summaryResult" where
  "sendSummaryEmail env sendMail buildPlain buildHtml now sid st =
     tryCatch (sendSummaryEmailTry env sendMail buildPlain buildHtml now sid st)
       (\<lambda>error. Inr (Failure (''Failed to send email: '' @ error) sid error now))"

text \<open>
  The handler \<^verbatim>\<open>sendSessionSummary\<close> of the session controller, lines 436-470. The arguments
  of \<open>ServerError\<close> are the \<^verbatim>\<open>error\<close> and the \<^verbatim>\<open>message\<close> of the body.
\<close>

definition sendSessionSummary ::
  "mailEnv \<Rightarrow> (mailOptions \<Rightarrow> string + string) \<Rightarrow> (session \<Rightarrow> string + string)
     \<Rightarrow> (session \<Rightarrow> string + string) \<Rightarrow> time \<Rightarrow> string \<Rightarrow> store \<Rightarrow> store \<times> response" where
  "sendSessionSummary env sendMail buildPlain buildHtml now sid st =
     (st, case sendSummaryEmail env sendMail buildPlain buildHtml now sid st of
            Inr (Confirmation msg sid' messageId ts recipient n userEmail userName) \<Rightarrow> OkEmail msg
          | Inr (Failure msg sid' error ts) \<Rightarrow> ServerError error msg
          | Inl error \<Rightarrow> ServerError ''Failed to send session summary'' error)"

section \<open>The frontend's API client\<close>

text \<open>
  \<^verbatim>\<open>frontend_new/js/chatbot-api.js\<close>. A thrown \<^verbatim>\<open>Error\<close> is its message; \<open>ErrorHttp n\<close> is the
  message \<^verbatim>\<open>HTTP n\<close>. What one \<^verbatim>\<open>fetch\<close> brings back is given by the environment: the
  request is rejected, or a response arrives with a status and a body that is JSON
  (\<open>Some\<close>) or not. The \<^verbatim>\<open>sources\<close> and \<^verbatim>\<open>metadata\<close> of a reply are kept as their JSON text.
\<close>

datatype jsError = Error string | ErrorHttp nat

record chatData =
  d_error :: "string option"
  d_reply :: "string option"
  d_response :: "string option"
  d_session_id :: "string option"
  d_sources :: "string option"
  d_metadata :: "string option"

datatype fetchResult = Rejected jsError | Responded nat "chatData option"

record chatReply =
  reply :: string
  session_id :: string
  sources :: string
  replyMetadata :: string

text \<open>\<^verbatim>\<open>a || b\<close> on strings that may be missing: the first one that is present and not empty.\<close>

fun orElse :: "string option \<Rightarrow> string \<Rightarrow> string" where
  "orElse None b = b"
| "orElse (Some a) b = (if a = [] then b else a)"

text \<open>
  \<^verbatim>\<open>sendMessage\<close>, lines 83-133. The result is the error thrown, or the reply together with
  the new value of \<^verbatim>\<open>this.sessionId\<close>.
\<close>

definition sendMessage :: "string \<Rightarrow> string \<Rightarrow> fetchResult \<Rightarrow> jsError + (chatReply \<times> string)" where
  "sendMessage message thisSessionId fetched =
     (if message = [] \<or> trim message = [] then Inl (Error ''Message cannot be empty'')
      else
        (case fetched of
           Rejected e \<Rightarrow> Inl e
         | Responded code body \<Rightarrow>
             if \<not> (200 \<le> code \<and> code \<le> 299)
             then (case body of
                     None \<Rightarrow> Inl (ErrorHttp code)
                   | Some errorData \<Rightarrow>
                       (case d_error errorData of
                          None \<Rightarrow> Inl (ErrorHttp code)
                        | Some e \<Rightarrow> if e = [] then Inl (ErrorHttp code) else Inl (Error e)))
             else
               (case body of
                  None \<Rightarrow> Inl (Error ''Unexpected token in JSON'')
                | Some data \<Rightarrow>
                    let thisSessionId' =
                          (case d_session_id data of
                             None \<Rightarrow> thisSessionId
                           | Some sid \<Rightarrow> if sid \<noteq> [] \<and> sid \<noteq> thisSessionId then sid else thisSessionId)
                    in Inr (\<lparr>reply = orElse (d_reply data) (orElse (d_response data) []),
                             session_id = orElse (d_session_id data) thisSessionId',
                             sources = orElse (d_sources data) ''[]'',
                             replyMetadata = orElse (d_metadata data) ''{}''\<rparr>,
                            thisSessionId'))))"

text \<open>
  \<^verbatim>\<open>sendMessageWithRetry\<close>, lines 136-153: the loop from \<open>attempt\<close> on. \<open>send k\<close> is the
  outcome of the \<open>k\<close>-th call of \<^verbatim>\<open>sendMessage\<close>. The result is what the function returns
  or throws (\<open>Inl None\<close> is \<^verbatim>\<open>throw undefined\<close>, when the loop body never ran), the number of
  calls made, and the pauses slept, in order.
\<close>

function retryLoop ::
  "int \<Rightarrow> int \<Rightarrow> (int \<Rightarrow> jsError + 'a) \<Rightarrow> int \<Rightarrow> jsError option \<Rightarrow> int list
     \<Rightarrow> (jsError option + 'a) \<times> int \<times> int list" where
  "retryLoop maxAttempts delayMs send attempt lastError slept =
     (if attempt \<le> maxAttempts then
        (case send attempt of
           Inr r \<Rightarrow> (Inr r, attempt, slept)
         | Inl error \<Rightarrow>
             retryLoop maxAttempts delayMs send (attempt + 1) (Some error)
               (if attempt < maxAttempts then slept @ [delayMs * attempt] else slept))
      else (Inl lastError, attempt - 1, slept))"
  by pat_completeness auto
termination
  by (relation "measure (\<lambda>(maxAttempts, delayMs, send, attempt, lastError, slept).
        nat (maxAttempts + 1 - attempt))") auto

declare retryLoop.simps [simp del]

text \<open>The \<^verbatim>\<open>retry\<close> entry of \<^verbatim>\<open>API_CONFIG\<close>: \<^verbatim>\<open>maxAttempts: 3, delayMs: 1000\<close>.\<close>

record retryConfig =
  maxAttempts :: int
  delayMs :: int

definition API_CONFIG_retry :: retryConfig where
  "API_CONFIG_retry = \<lparr>maxAttempts = 3, delayMs = 1000\<rparr>"

definition sendMessageWithRetry ::
  "retryConfig \<Rightarrow> string \<Rightarrow> string \<Rightarrow> (int \<Rightarrow> fetchResult)
     \<Rightarrow> (jsError option + (chatReply \<times> string)) \<times> int \<times> int list" where
  "sendMessageWithRetry config message thisSessionId server =
     retryLoop (maxAttempts config) (delayMs config)
       (\<lambda>attempt. sendMessage message thisSessionId (server attempt)) 1 None []"

text \<open>
  A server that answers every request with 404 and the body of the session controller's
  not-found answer.
\<close>

definition alwaysNotFound :: "int \<Rightarrow> fetchResult" where
  "alwaysNotFound attempt =
     Responded 404 (Some \<lparr>d_error = Some ''Active session not found'', d_reply = None,
                            d_response = None, d_session_id = None, d_sources = None,
                            d_metadata = None\<rparr>)"

subsection \<open>Closing the chat\<close>

text \<open>
  \<^verbatim>\<open>closeSession\<close> of the API client, lines 172-198. \<open>freshId\<close> is the session id that
  \<^verbatim>\<open>resetSession\<close> generates. The result is the error thrown, or the data of the response
  with the new value of \<^verbatim>\<open>this.sessionId\<close>.
\<close>

definition closeSession :: "string option \<Rightarrow> string \<Rightarrow> fetchResult \<Rightarrow> jsError + (chatData \<times> string)" where
  "closeSession thisSessionId freshId fetched =
     (if falsy thisSessionId then Inl (Error ''No active session to close'')
      else
        (case fetched of
           Rejected e \<Rightarrow> Inl e
         | Responded code body \<Rightarrow>
             if \<not> (200 \<le> code \<and> code \<le> 299)
             then (case body of
                     None \<Rightarrow> Inl (ErrorHttp code)
                   | Some errorData \<Rightarrow>
                       (case d_error errorData of
                          None \<Rightarrow> Inl (ErrorHttp code)
                        | Some e \<Rightarrow> if e = [] then Inl (ErrorHttp code) else Inl (Error e)))
             else
               (case body of
                  None \<Rightarrow> Inl (Error ''Unexpected token in JSON'')
                | Some data \<Rightarrow> Inr (data, freshId))))"

text \<open>
  The state of \<^verbatim>\<open>ChatbotUI\<close> that \<^verbatim>\<open>closeChat\<close> reads and writes: whether the window is open,
  whether the pre-chat form was submitted, and the session id of its API client.
\<close>

record uiState =
  isOpen :: bool
  formSubmitted :: bool
  apiSessionId :: "string option"

text \<open>\<^verbatim>\<open>sendSessionCloseEmail\<close>, lines 274-295 of the UI controller: an error is thrown again.\<close>

definition sendSessionCloseEmail :: "uiState \<Rightarrow> string \<Rightarrow> fetchResult \<Rightarrow> jsError + uiState" where
  "sendSessionCloseEmail ui freshId fetched =
     (if falsy (apiSessionId ui) then Inr ui
      else
        (case closeSession (apiSessionId ui) freshId fetched of
           Inl error \<Rightarrow> Inl error
         | Inr (result, newId) \<Rightarrow> Inr (ui\<lparr>apiSessionId := Some newId\<rparr>)))"

text \<open>\<^verbatim>\<open>closeChat\<close>, lines 254-271 of the UI controller.\<close>

definition closeChat :: "uiState \<Rightarrow> string \<Rightarrow> fetchResult \<Rightarrow> jsError + uiState" where
  "closeChat ui freshId fetched =
     (let ui' =
        (if formSubmitted ui \<and> \<not> falsy (apiSessionId ui)
         then (case sendSessionCloseEmail ui freshId fetched of
                 Inl error \<Rightarrow> ui
               | Inr closed \<Rightarrow> closed)
         else ui)
      in Inr (ui'\<lparr>isOpen := False\<rparr>))"

section \<open>The Response Coordinator\<close>

text \<open>
  Modelled from the spec: the Response Coordinator and the Topic Processors
  (\<^verbatim>\<open>backend/src/agents/response_coordinator.py\<close> and the processors beside it), which are
  not among the sources; only the notes on their integration are. The spec: a LinkRef is
  a \<^verbatim>\<open>(label, url)\<close> pair; a processor has the capabilities \<^verbatim>\<open>matches\<close>, \<^verbatim>\<open>links\<close> and \<^verbatim>\<open>label\<close>,
  and its own formatted block is its natural phrasing followed by its full ordered list
  of LinkRef. A processor whose evaluation raises an error (\<open>None\<close>) is treated as
  non-firing.
\<close>

record linkRef =
  label :: string
  url :: string

text \<open>
  Modelled from the spec: a Topic Processor as its capability set, with the natural
  phrasing of its own block. \<open>matches\<close> answers \<open>None\<close> when the evaluation raises an
  error.
\<close>

record processor =
  processorLabel :: string
  matches :: "string \<Rightarrow> string \<Rightarrow> bool option"
  phrasing :: string
  links :: "linkRef list"

text \<open>
  Modelled from the spec: step 2 of \<^verbatim>\<open>augment\<close>. The spec: \<^verbatim>\<open>firing\<close> is the sub-sequence of
  \<^verbatim>\<open>processors\<close> (preserving registration order) for which \<^verbatim>\<open>matches\<close> is true.
\<close>

definition firing :: "processor list \<Rightarrow> string \<Rightarrow> string \<Rightarrow> processor list" where
  "firing processors answerText queryText =
     filter (\<lambda>p. matches p answerText queryText = Some True) processors"

text \<open>
  Modelled from the spec: the merge of step 5. The spec: the union of all LinkRef from
  every firing processor, in the order their owning processor was registered, skipping any
  LinkRef whose url has already been added (dedup by url, first occurrence wins).
  \<open>addLinks added ls\<close> goes through \<open>ls\<close> with the links \<open>added\<close> so far.
\<close>

fun addLinks :: "linkRef list \<Rightarrow> linkRef list \<Rightarrow> linkRef list" where
  "addLinks added [] = added"
| "addLinks added (l # ls) =
     (if url l \<in> set (map url added) then addLinks added ls else addLinks (added @ [l]) ls)"

text \<open>
  Modelled from the spec: the links of the unified block of step 5, the merge started
  with nothing added, over the links of the firing processors one after the other.
\<close>

definition unifiedLinks :: "processor list \<Rightarrow> linkRef list" where
  "unifiedLinks fs = addLinks [] (concat (map links fs))"

text \<open>
  Modelled from the spec: \<^verbatim>\<open>augment(answerText, queryText, processors)\<close>, steps 3 to 5. The
  neutral introductory sentence of the unified block and the text of one link are
  parameters.
\<close>

definition augment ::
  "string \<Rightarrow> (linkRef \<Rightarrow> string) \<Rightarrow> string \<Rightarrow> string \<Rightarrow> processor list \<Rightarrow> string" where
  "augment intro renderLink answerText queryText processors =
     (case firing processors answerText queryText of
        [] \<Rightarrow> answerText
      | [p] \<Rightarrow> answerText @ phrasing p @ concat (map renderLink (links p))
      | fs \<Rightarrow> answerText @ intro @ concat (map renderLink (unifiedLinks fs)))"

section \<open>The Streaming Coordinator\<close>

text \<open>
  Modelled from the spec: the events of a stream (StreamEvent); the server that produces
  them (\<^verbatim>\<open>POST /api/stream\<close> of the Python backend) is not among the sources, only its
  client and the description of its response stream are. The spec: a tagged union
  \<^verbatim>\<open>{status} | {chunk, accumulated, done:false} | {accumulated, done:true, metadata} | {error} | DONE-sentinel\<close>,
  the terminal event having the shape \<^verbatim>\<open>{chunk:"", accumulated:<full text>, done:true, metadata}\<close>.
  \<open>StatusEvent\<close> carries the status and the session id; \<open>DataEvent\<close> carries \<^verbatim>\<open>chunk\<close>,
  \<^verbatim>\<open>accumulated\<close>, \<^verbatim>\<open>done\<close> and the metadata when there is one.
\<close>

datatype streamEvent =
    StatusEvent string string
  | DataEvent string string bool "string option"
  | ErrorEvent string
  | DoneSentinel



text \<open>
  Modelled from the spec: rule 3 of the Streaming Coordinator, not among the sources. The
  spec: zero or more \<^verbatim>\<open>{chunk, accumulated, done:false}\<close> events, strictly in production
  order, one for each text fragment the generation step produces; \<open>acc\<close> is the text
  emitted before.
\<close>

fun chunkEvents :: "string \<Rightarrow> string list \<Rightarrow> streamEvent list" where
  "chunkEvents acc [] = []"
| "chunkEvents acc (fragment # fragments) =
     DataEvent fragment (acc @ fragment) False None # chunkEvents (acc @ fragment) fragments"

text \<open>
  Modelled from the spec: \<^verbatim>\<open>stream(sessionId, query)\<close>, not among the sources. The generation
  step is given by the fragments it produces and by the error it fails with after them, if
  it fails; the consumer is given by \<open>cancelled\<close>: \<open>None\<close> when it stays connected to the end,
  \<open>Some k\<close> when its disconnection (or the request's timeout) is observed before the
  terminal event, after \<open>k\<close> events have been emitted. The spec:
  \<^item> first \<^verbatim>\<open>{status:"retrieving", sessionId}\<close>, then \<^verbatim>\<open>{status:"generating", sessionId}\<close>, then
    the chunk events, then exactly one terminal event and a final sentinel marking
    end-of-stream;
  \<^item> if generation fails at any point, instead of further chunk events emit
    \<^verbatim>\<open>{error:<message>}\<close> and still terminate the stream (no further events). The spec does
    not say whether the sentinel follows the error event: \<open>sentinelAfterError\<close> stands for
    either reading;
  \<^item> if the consumer disconnects before the terminal event, the generation is stopped and
    no chunk is emitted after cancellation is observed; this is not reported as an error
    and is treated as normal termination. So the stream is then the first \<open>k\<close> of the
    events that precede the terminal event (all of them when there are fewer): nothing
    follows them, neither a terminal event, nor an error event, nor the sentinel.
\<close>

definition stream ::
  "string \<Rightarrow> string list \<Rightarrow> string option \<Rightarrow> string \<Rightarrow> bool \<Rightarrow> nat option \<Rightarrow> streamEvent list" where
  "stream sid fragments failure md sentinelAfterError cancelled =
     (case cancelled of
        Some k \<Rightarrow>
          take k ([StatusEvent ''retrieving'' sid, StatusEvent ''generating'' sid] @
                  chunkEvents [] fragments)
      | None \<Rightarrow>
          [StatusEvent ''retrieving'' sid, StatusEvent ''generating'' sid] @
          chunkEvents [] fragments @
          (case failure of
             None \<Rightarrow> [DataEvent [] (concat fragments) True (Some md), DoneSentinel]
           | Some msg \<Rightarrow> ErrorEvent msg # (if sentinelAfterError then [DoneSentinel] else [])))"

subsection \<open>The client of the stream\<close>

text \<open>
  \<^verbatim>\<open>handleStreamingChat\<close> of \<^verbatim>\<open>frontend/static/chat.js\<close>, lines 408-512: what the loop over the
  \<^verbatim>\<open>data:\<close> lines does with the events, one \<open>streamEvent\<close> for each line. The state is the
  accumulated response, whether the message element exists and the text it shows (before
  \<^verbatim>\<open>formatMessage\<close>), the chat history, the error messages shown and the session id.
\<close>

record chatClient =
  accumulatedResponse :: string
  messageElement :: "string option"
  chatHistory :: "(string \<times> string) list"
  errorMessages :: "string list"
  clientSessionId :: "string option"

fun consume :: "string \<Rightarrow> chatClient \<Rightarrow> streamEvent list \<Rightarrow> chatClient" where
  "consume message c [] = c"
| "consume message c (DoneSentinel # events) = c"
| "consume message c (ErrorEvent msg # events) =
     (if msg \<noteq> [] then c\<lparr>errorMessages := errorMessages c @ [msg]\<rparr> else consume message c events)"
| "consume message c (StatusEvent stat sid # events) =
     consume message
       (if sid \<noteq> [] \<and> falsy (clientSessionId c) then c\<lparr>clientSessionId := Some sid\<rparr> else c) events"
| "consume message c (DataEvent chunk accumulated done md # events) =
     (let c1 = (if chunk \<noteq> [] \<and> messageElement c = None then c\<lparr>messageElement := Some []\<rparr> else c);
          c2 = (if accumulated \<noteq> []
                then c1\<lparr>accumulatedResponse := accumulated,
                        messageElement := map_option (\<lambda>shown. accumulated) (messageElement c1)\<rparr>
                else c1)
      in if done
         then c2\<lparr>chatHistory := chatHistory c2 @
                    [(''user'', message), (''assistant'', accumulatedResponse c2)]\<rparr>
         else consume message c2 events)"

section \<open>Invariants of a session's history\<close>

text \<open>
  \<open>timestampsOk t s\<close>: the message timestamps of \<open>s\<close> are in non-decreasing order and,
  like its \<open>lastActivity\<close>, not later than the clock reading \<open>t\<close>. \<open>evolves s s'\<close>: a
  later state \<open>s'\<close> of a session \<open>s\<close> is not active again once \<open>s\<close> is terminal, has
  no earlier \<open>lastActivity\<close>, and only has messages appended.
\<close>

definition timestampsOk :: "time \<Rightarrow> session \<Rightarrow> bool" where
  "timestampsOk t s \<longleftrightarrow>
     sorted (map timestamp (messages s)) \<and> (\<forall>m \<in> set (messages s). timestamp m \<le> t)
     \<and> lastActivity s \<le> t"

definition evolves :: "session \<Rightarrow> session \<Rightarrow> bool" where
  "evolves s s' \<longleftrightarrow>
     (status s \<noteq> Active \<longrightarrow> status s' \<noteq> Active) \<and> lastActivity s \<le> lastActivity s'
     \<and> prefix (messages s) (messages s')"

text \<open>
  A later state of the whole store: no document is removed, every document evolves, and
  the timestamps of the later store are bounded by \<open>t\<close>.
\<close>

definition storeEvolves :: "time \<Rightarrow> store \<Rightarrow> store \<Rightarrow> bool" where
  "storeEvolves t st st' \<longleftrightarrow>
     length st \<le> length st' \<and> (\<forall>i < length st. evolves (st ! i) (st' ! i))
     \<and> (\<forall>s \<in> set st'. timestampsOk t s)"

section \<open>Example data\<close>

text \<open>
  The identity fields of the spec's scenario for creating a session, and the store that
  holds the session created from them under the id \<open>''s-1''\<close> at time 100.
\<close>

definition janeDoe :: reqUserInfo where
  "janeDoe =
     \<lparr>r_fullName = Some ''Jane Doe'', r_email = Some ''jane@x.com'',
      r_companyName = Some ''Acme'', r_projectName = None,
      r_supplierType = Some ''Current Supplier'', r_city = None, r_country = None\<rparr>"

definition janeStore :: store where
  "janeStore = fst (createSession ''s-1'' 100 (Some janeDoe) [])"

text \<open>Two request sequences on the scenario's session, run one after the other.\<close>

definition janeRequests1 :: "request list" where
  "janeRequests1 =
     [CreateSession 100 ''s-1'' (Some janeDoe), AddUserMessage 200 ''s-1'' (Some ''hello''),
      EndSession 300 ''s-1'']"

definition janeRequests2 :: "request list" where
  "janeRequests2 =
     [AddUserMessage 400 ''s-1'' (Some ''again''), UpdateActivity 500 ''s-1'', Sweep 600 50,
      CreateSession 700 ''s-2'' (Some janeDoe)]"

text \<open>A mail environment with no administrator address, and a transport that always fails.\<close>

definition noAdminEnv :: mailEnv where
  "noAdminEnv = \<lparr>ADMIN_EMAIL = None, MAIL_USER = Some ''bot@x.com'', MAIL_PASS = Some ''secret''\<rparr>"

definition failingTransport :: "mailOptions \<Rightarrow> string + string" where
  "failingTransport options = Inl ''connect ECONNREFUSED''"

definition plainOf :: "session \<Rightarrow> string + string" where
  "plainOf session = Inr (concat (map msgText (messages session)))"

text \<open>
  Three processors in registration order: the first two share the url \<open>''u2''\<close>, the
  third raises an error when it is evaluated.
\<close>

definition apqpProcessor :: processor where
  "apqpProcessor =
     \<lparr>processorLabel = ''APQP'', matches = (\<lambda>answerText queryText. Some True),
      phrasing = ''See the APQP guide: '',
      links = [\<lparr>label = ''APQP Quick Access Guide'', url = ''u1''\<rparr>,
               \<lparr>label = ''Portal Guide'', url = ''u2''\<rparr>]\<rparr>"

definition ppapProcessor :: processor where
  "ppapProcessor =
     \<lparr>processorLabel = ''PPAP'', matches = (\<lambda>answerText queryText. Some True),
      phrasing = ''See the PPAP guides: '',
      links = [\<lparr>label = ''Supplier Portal'', url = ''u2''\<rparr>,
               \<lparr>label = ''PPAP Submission Guide'', url = ''u3''\<rparr>]\<rparr>"

definition brokenProcessor :: processor where
  "brokenProcessor =
     \<lparr>processorLabel = ''SICR'', matches = (\<lambda>answerText queryText. None),
      phrasing = ''See the SICR guide: '',
      links = [\<lparr>label = ''SICR Guide'', url = ''u4''\<rparr>]\<rparr>"

section \<open>Properties of the store\<close>

lemma findOne_None: "findOne P st = None \<longleftrightarrow> (\<forall>s \<in> set st. \<not> P s)"
  by (induction st) (auto split: option.splits)

lemma findOne_Some:
  "findOne P st = Some (i, s) \<Longrightarrow> i < length st \<and> st ! i = s \<and> P s \<and> (\<forall>j < i. \<not> P (st ! j))"
proof (induction st arbitrary: i)
  case Nil
  then show ?case by simp
next
  case (Cons a st)
  show ?case
  proof (cases "P a")
    case True
    with Cons.prems show ?thesis by simp
  next
    case False
    with Cons.prems obtain k where k: "findOne P st = Some (k, s)" "i = Suc k"
      by (auto split: option.splits)
    from Cons.IH [OF k(1)] have ih: "k < length st" "st ! k = s" "P s" "\<forall>j < k. \<not> P (st ! j)"
      by simp_all
    have "\<forall>j < Suc k. \<not> P ((a # st) ! j)"
    proof (intro allI impI)
      fix j assume "j < Suc k"
      then show "\<not> P ((a # st) ! j)"
        using False ih(4) by (cases j) simp_all
    qed
    with ih k(2) show ?thesis by simp
  qed
qed

lemma findOne_first:
  assumes "i < length st" and "P (st ! i)" and "\<forall>j < i. \<not> P (st ! j)"
  shows "findOne P st = Some (i, st ! i)"
proof (cases "findOne P st")
  case None
  with assms(1,2) show ?thesis by (auto simp: findOne_None)
next
  case (Some a)
  obtain k s where a: "a = (k, s)" by (cases a)
  from findOne_Some [of P st k s] Some a
  have k: "k < length st" "st ! k = s" "P s" "\<forall>j < k. \<not> P (st ! j)" by simp_all
  have "k = i"
  proof (rule ccontr)
    assume "k \<noteq> i"
    then consider "k < i" | "i < k" by linarith
    then show False using assms k by cases auto
  qed
  with Some a k show ?thesis by simp
qed

lemma findOne_distinct:
  assumes "distinct (map sessionId st)" and "i < length st" and "status (st ! i) = Active"
  shows "findOne (activeWithId (sessionId (st ! i))) st = Some (i, st ! i)"
proof (rule findOne_first)
  show "i < length st" by fact
  show "activeWithId (sessionId (st ! i)) (st ! i)" using assms(3) by (simp add: activeWithId_def)
  show "\<forall>j<i. \<not> activeWithId (sessionId (st ! i)) (st ! j)"
  proof (intro allI impI)
    fix j assume j: "j < i"
    with assms(2) have "j < length st" by simp
    with assms(1,2) j have "sessionId (st ! j) \<noteq> sessionId (st ! i)"
      by (metis distinct_conv_nth length_map nat_neq_iff nth_map)
    then show "\<not> activeWithId (sessionId (st ! i)) (st ! j)" by (simp add: activeWithId_def)
  qed
qed

lemma findOne_ended:
  assumes "distinct (map sessionId st)" and "i < length st" and "sessionId s' = sessionId (st ! i)"
    and "status s' \<noteq> Active"
  shows "findOne (activeWithId (sessionId (st ! i))) (st[i := s']) = None"
proof -
  have "\<not> activeWithId (sessionId (st ! i)) t" if t: "t \<in> set (st[i := s'])" for t
  proof -
    from t obtain j where j: "j < length st" "t = st[i := s'] ! j"
      by (auto simp: in_set_conv_nth)
    show ?thesis
    proof (cases "j = i")
      case True
      with j assms(2,4) show ?thesis by (simp add: activeWithId_def)
    next
      case False
      with j have "t = st ! j" by simp
      moreover from False j assms(1,2) have "sessionId (st ! j) \<noteq> sessionId (st ! i)"
        by (metis distinct_conv_nth length_map nth_map)
      ultimately show ?thesis by (simp add: activeWithId_def)
    qed
  qed
  then show ?thesis by (simp add: findOne_None)
qed

section \<open>Ending a session\<close>

text \<open>
  Claim C3. On a store whose session ids are pairwise distinct, \<^verbatim>\<open>endSession\<close> on an active
  session moves it to \<open>Ended\<close>, sets \<open>endedAt\<close> and answers success; every later
  \<^verbatim>\<open>endSession\<close> for that id answers 404 "Active session not found" and leaves the store as
  it is.
\<close>

theorem endSession_first_succeeds_then_not_found:
  assumes "distinct (map sessionId st)" and "i < length st" and "status (st ! i) = Active"
  shows "endSession now (sessionId (st ! i)) st =
           (st[i := (st ! i)\<lparr>status := Ended, endedAt := Some now\<rparr>],
            OkEnded (sessionId (st ! i)) Ended (Some now))
         \<and> (\<forall>later. endSession later (sessionId (st ! i))
                       (st[i := (st ! i)\<lparr>status := Ended, endedAt := Some now\<rparr>]) =
                     (st[i := (st ! i)\<lparr>status := Ended, endedAt := Some now\<rparr>],
                      NotFound ''Active session not found''))"
proof -
  let ?s' = "(st ! i)\<lparr>status := Ended, endedAt := Some now\<rparr>"
  have first: "findOne (activeWithId (sessionId (st ! i))) st = Some (i, st ! i)"
    using assms by (rule findOne_distinct)
  have second: "findOne (activeWithId (sessionId (st ! i))) (st[i := ?s']) = None"
    using assms(1,2) by (rule findOne_ended) simp_all
  show ?thesis
    by (simp add: endSession_def first second endSessionDoc_def)
qed


lemma janeStore_eq:
  "janeStore =
     [\<lparr>sessionId = ''s-1'',
       userInfo = \<lparr>fullName = ''Jane Doe'', email = ''jane@x.com'', companyName = ''Acme'',
                   projectName = ''N/A'', supplierType = ''Current Supplier'',
                   city = None, country = None\<rparr>,
       messages = [], status = Active, createdAt = 100, lastActivity = 100, endedAt = None\<rparr>]"
  by (simp add: janeStore_def createSession_def janeDoe_def newSession_def)

theorem endSession_first_succeeds_then_not_found_witness:
  "distinct (map sessionId janeStore) \<and> 0 < length janeStore \<and> status (janeStore ! 0) = Active
   \<and> endSession 250 ''s-1'' janeStore =
       (janeStore[0 := (janeStore ! 0)\<lparr>status := Ended, endedAt := Some 250\<rparr>],
        OkEnded ''s-1'' Ended (Some 250))
   \<and> endSession 300 ''s-1'' (janeStore[0 := (janeStore ! 0)\<lparr>status := Ended, endedAt := Some 250\<rparr>]) =
       (janeStore[0 := (janeStore ! 0)\<lparr>status := Ended, endedAt := Some 250\<rparr>],
        NotFound ''Active session not found'')"
proof -
  have h: "distinct (map sessionId janeStore)" "0 < length janeStore" "status (janeStore ! 0) = Active"
    by (simp_all add: janeStore_eq)
  have id: "sessionId (janeStore ! 0) = ''s-1''" by (simp add: janeStore_eq)
  from endSession_first_succeeds_then_not_found [OF h, of 250] h id show ?thesis
    by simp
qed



section \<open>Appending a message and touching the activity\<close>

lemma findOne_absent:
  "\<forall>s \<in> set st. \<not> (sessionId s = sid \<and> status s = Active) \<Longrightarrow> findOne (activeWithId sid) st = None"
  by (simp add: findOne_None activeWithId_def)

lemma trim_Nil: "trim [] = []"
  by (simp add: trim_def)

text \<open>
  Claim C7, as amended. When no session with the given id is active, \<^verbatim>\<open>addUserMessage\<close> and
  \<^verbatim>\<open>addBotMessage\<close> leave the store unchanged and answer 404 "Active session not found"
  when the text is not blank, and 400 "Message text is required" when it is missing or
  blank (the text is checked before the session is looked up); \<^verbatim>\<open>addChatInteraction\<close> does
  the same with its two texts; \<^verbatim>\<open>updateActivity\<close> leaves the store unchanged and answers
  404. A blank text (nothing but white space, NO-BREAK SPACE and the other Unicode spaces
  included) is answered 400 with the store unchanged, whatever the store holds. When the
  first active session with that id is document
  \<open>i\<close> and the text is not blank, the trimmed message is appended to that document and
  its \<open>lastActivity\<close> is set to the same clock reading, in one update of the document.
\<close>

theorem appendMessage_touchActivity_not_found_or_appended:
  "((\<forall>s \<in> set st. \<not> (sessionId s = sid \<and> status s = Active)) \<longrightarrow>
      addUserMessage now sid userTxt st =
        (st, case userTxt of None \<Rightarrow> BadRequest ''Message text is required''
             | Some t \<Rightarrow> if trim t = [] then BadRequest ''Message text is required''
                         else NotFound ''Active session not found'')
      \<and> addBotMessage now sid userTxt md st =
        (st, case userTxt of None \<Rightarrow> BadRequest ''Message text is required''
             | Some t \<Rightarrow> if trim t = [] then BadRequest ''Message text is required''
                         else NotFound ''Active session not found'')
      \<and> addChatInteraction now now2 sid userTxt botTxt md st =
        (st, if falsy userTxt \<or> falsy botTxt
             then BadRequest ''Both userMessage and botMessage are required''
             else NotFound ''Active session not found'')
      \<and> updateActivity now sid st = (st, NotFound ''Active session not found''))
   \<and> (trim blank = [] \<longrightarrow>
      addUserMessage now sid (Some blank) st = (st, BadRequest ''Message text is required'')
      \<and> addBotMessage now sid (Some blank) md st = (st, BadRequest ''Message text is required''))
   \<and> (i < length st \<and> sessionId (st ! i) = sid \<and> status (st ! i) = Active
        \<and> (\<forall>j < i. \<not> (sessionId (st ! j) = sid \<and> status (st ! j) = Active))
        \<and> trim t \<noteq> [] \<longrightarrow>
      fst (addUserMessage now sid (Some t) st) =
        st[i := (st ! i)\<lparr>messages := messages (st ! i) @
                    [\<lparr>sender = User, msgText = trim t, timestamp = now, metadata = None\<rparr>],
                  lastActivity := now\<rparr>]
      \<and> fst (addBotMessage now sid (Some t) md st) =
        st[i := (st ! i)\<lparr>messages := messages (st ! i) @
                    [\<lparr>sender = Bot, msgText = trim t, timestamp = now,
                      metadata = Some (case md of None \<Rightarrow> [] | Some m \<Rightarrow> m)\<rparr>],
                  lastActivity := now\<rparr>]
      \<and> fst (updateActivity now sid st) = st[i := (st ! i)\<lparr>lastActivity := now\<rparr>]
      \<and> httpStatus (snd (addUserMessage now sid (Some t) st)) = 200
      \<and> httpStatus (snd (addBotMessage now sid (Some t) md st)) = 200
      \<and> httpStatus (snd (updateActivity now sid st)) = 200)"
proof (intro conjI impI)
  assume a: "\<forall>s \<in> set st. \<not> (sessionId s = sid \<and> status s = Active)"
  then have none: "findOne (activeWithId sid) st = None" by (rule findOne_absent)
  show "addUserMessage now sid userTxt st =
        (st, case userTxt of None \<Rightarrow> BadRequest ''Message text is required''
             | Some t \<Rightarrow> if trim t = [] then BadRequest ''Message text is required''
                         else NotFound ''Active session not found'')"
    by (cases "userTxt") (auto simp: addUserMessage_def none trim_Nil)
  show "addBotMessage now sid userTxt md st =
        (st, case userTxt of None \<Rightarrow> BadRequest ''Message text is required''
             | Some t \<Rightarrow> if trim t = [] then BadRequest ''Message text is required''
                         else NotFound ''Active session not found'')"
    by (cases "userTxt") (auto simp: addBotMessage_def none trim_Nil)
  show "addChatInteraction now now2 sid userTxt botTxt md st =
        (st, if falsy userTxt \<or> falsy botTxt
             then BadRequest ''Both userMessage and botMessage are required''
             else NotFound ''Active session not found'')"
    by (cases "userTxt"; cases botTxt) (simp_all add: addChatInteraction_def none)
  show "updateActivity now sid st = (st, NotFound ''Active session not found'')"
    by (simp add: updateActivity_def none)
next
  assume "trim blank = []"
  then show "addUserMessage now sid (Some blank) st = (st, BadRequest ''Message text is required'')"
    by (simp add: addUserMessage_def)
next
  assume "trim blank = []"
  then show "addBotMessage now sid (Some blank) md st = (st, BadRequest ''Message text is required'')"
    by (simp add: addBotMessage_def)
next
  assume b: "i < length st \<and> sessionId (st ! i) = sid \<and> status (st ! i) = Active
        \<and> (\<forall>j < i. \<not> (sessionId (st ! j) = sid \<and> status (st ! j) = Active))
        \<and> trim t \<noteq> []"
  then have found: "findOne (activeWithId sid) st = Some (i, st ! i)"
    by (intro findOne_first) (simp_all add: activeWithId_def)
  from b have t: "t \<noteq> []" "trim t \<noteq> []" by (auto simp: trim_Nil)
  show "fst (addUserMessage now sid (Some t) st) =
        st[i := (st ! i)\<lparr>messages := messages (st ! i) @
                    [\<lparr>sender = User, msgText = trim t, timestamp = now, metadata = None\<rparr>],
                  lastActivity := now\<rparr>]"
    using t by (simp add: addUserMessage_def found addMessage_def)
  show "fst (addBotMessage now sid (Some t) md st) =
        st[i := (st ! i)\<lparr>messages := messages (st ! i) @
                    [\<lparr>sender = Bot, msgText = trim t, timestamp = now,
                      metadata = Some (case md of None \<Rightarrow> [] | Some m \<Rightarrow> m)\<rparr>],
                  lastActivity := now\<rparr>]"
    using t by (simp add: addBotMessage_def found addMessage_def)
  show "fst (updateActivity now sid st) = st[i := (st ! i)\<lparr>lastActivity := now\<rparr>]"
    by (simp add: updateActivity_def found)
  show "httpStatus (snd (addUserMessage now sid (Some t) st)) = 200"
    using t by (simp add: addUserMessage_def found Let_def)
  show "httpStatus (snd (addBotMessage now sid (Some t) md st)) = 200"
    using t by (simp add: addBotMessage_def found Let_def)
  show "httpStatus (snd (updateActivity now sid st)) = 200"
    by (simp add: updateActivity_def found Let_def)
qed

lemma trim_hello:
  "trim ''hello'' = ''hello''" "trim ''   '' = []" "trim [CHR 0xC2, CHR 0xA0] = []"
  by (simp_all add: trim_def whiteSpace1_def whiteSpace2_def whiteSpace3_def)

text \<open>
  Claim C7 as stated fails: for an id that names no active session and a blank text,
  \<^verbatim>\<open>addUserMessage\<close> answers 400 "Message text is required", not 404. A text that is one
  NO-BREAK SPACE (U+00A0, bytes \<^verbatim>\<open>C2 A0\<close>) is blank too, and so is it for \<^verbatim>\<open>addBotMessage\<close>.
\<close>

theorem appendMessage_blank_text_counterexample:
  "addUserMessage 200 ''no-such-session'' (Some ''   '') janeStore =
     (janeStore, BadRequest ''Message text is required'')
   \<and> snd (addUserMessage 200 ''no-such-session'' (Some ''   '') janeStore) \<noteq>
       NotFound ''Active session not found''
   \<and> addUserMessage 200 ''no-such-session'' (Some [CHR 0xC2, CHR 0xA0]) janeStore =
     (janeStore, BadRequest ''Message text is required'')
   \<and> addBotMessage 200 ''no-such-session'' (Some [CHR 0xC2, CHR 0xA0]) None janeStore =
     (janeStore, BadRequest ''Message text is required'')
   \<and> findOne (activeWithId ''no-such-session'') janeStore = None"
  by (simp add: addUserMessage_def addBotMessage_def trim_hello janeStore_eq activeWithId_def)


theorem appendMessage_touchActivity_not_found_or_appended_witness:
  "findOne (activeWithId ''no-such-session'') janeStore = None
   \<and> addUserMessage 200 ''no-such-session'' (Some ''hello'') janeStore =
       (janeStore, NotFound ''Active session not found'')
   \<and> addBotMessage 200 ''no-such-session'' (Some ''hello'') None janeStore =
       (janeStore, NotFound ''Active session not found'')
   \<and> updateActivity 200 ''no-such-session'' janeStore =
       (janeStore, NotFound ''Active session not found'')
   \<and> sessionId (janeStore ! 0) = ''s-1'' \<and> status (janeStore ! 0) = Active
   \<and> messages (fst (addUserMessage 200 ''s-1'' (Some '' hello '') janeStore) ! 0) =
       [\<lparr>sender = User, msgText = ''hello'', timestamp = 200, metadata = None\<rparr>]
   \<and> lastActivity (fst (addUserMessage 200 ''s-1'' (Some '' hello '') janeStore) ! 0) = 200
   \<and> messages (fst (addBotMessage 200 ''s-1'' (Some '' hello '') None janeStore) ! 0) =
       [\<lparr>sender = Bot, msgText = ''hello'', timestamp = 200, metadata = Some []\<rparr>]
   \<and> trim [CHR 0xC2, CHR 0xA0] = []
   \<and> addUserMessage 200 ''s-1'' (Some [CHR 0xC2, CHR 0xA0]) janeStore =
       (janeStore, BadRequest ''Message text is required'')
   \<and> addBotMessage 200 ''s-1'' (Some [CHR 0xC2, CHR 0xA0]) None janeStore =
       (janeStore, BadRequest ''Message text is required'')"
proof -
  have absent: "\<forall>s \<in> set janeStore. \<not> (sessionId s = ''no-such-session'' \<and> status s = Active)"
    by (simp add: janeStore_eq)
  have present: "0 < length janeStore \<and> sessionId (janeStore ! 0) = ''s-1''
        \<and> status (janeStore ! 0) = Active
        \<and> (\<forall>j < 0. \<not> (sessionId (janeStore ! j) = ''s-1'' \<and> status (janeStore ! j) = Active))
        \<and> trim '' hello '' \<noteq> []"
    by (simp add: janeStore_eq trim_def whiteSpace1_def whiteSpace2_def whiteSpace3_def)
  have tr: "trim ''hello'' = ''hello''" "trim '' hello '' = ''hello''"
    by (simp_all add: trim_def whiteSpace1_def whiteSpace2_def whiteSpace3_def)
  note nf = appendMessage_touchActivity_not_found_or_appended
    [where st = janeStore and sid = "''no-such-session''" and now = 200
       and userTxt = "Some ''hello''" and md = None and botTxt = "Some ''hi''",
     THEN conjunct1, THEN mp, OF absent]
  note ok = appendMessage_touchActivity_not_found_or_appended
    [where st = janeStore and sid = "''s-1''" and now = 200 and md = None and i = 0
       and t = "'' hello ''",
     THEN conjunct2, THEN conjunct2, THEN mp, OF present]
  note bl = appendMessage_touchActivity_not_found_or_appended
    [where st = janeStore and sid = "''s-1''" and now = 200 and md = None
       and blank = "[CHR 0xC2, CHR 0xA0]",
     THEN conjunct2, THEN conjunct1, THEN mp, OF trim_hello(3)]
  have none: "findOne (activeWithId ''no-such-session'') janeStore = None"
    by (simp add: janeStore_eq activeWithId_def)
  from nf ok none have first: "findOne (activeWithId ''no-such-session'') janeStore = None
   \<and> addUserMessage 200 ''no-such-session'' (Some ''hello'') janeStore =
       (janeStore, NotFound ''Active session not found'')
   \<and> addBotMessage 200 ''no-such-session'' (Some ''hello'') None janeStore =
       (janeStore, NotFound ''Active session not found'')
   \<and> updateActivity 200 ''no-such-session'' janeStore =
       (janeStore, NotFound ''Active session not found'')
   \<and> sessionId (janeStore ! 0) = ''s-1'' \<and> status (janeStore ! 0) = Active
   \<and> messages (fst (addUserMessage 200 ''s-1'' (Some '' hello '') janeStore) ! 0) =
       [\<lparr>sender = User, msgText = ''hello'', timestamp = 200, metadata = None\<rparr>]
   \<and> lastActivity (fst (addUserMessage 200 ''s-1'' (Some '' hello '') janeStore) ! 0) = 200
   \<and> messages (fst (addBotMessage 200 ''s-1'' (Some '' hello '') None janeStore) ! 0) =
       [\<lparr>sender = Bot, msgText = ''hello'', timestamp = 200, metadata = Some []\<rparr>]"
    by (simp add: tr janeStore_eq)
  from first bl trim_hello(3) show ?thesis by (intro conjI) (elim conjE, assumption)+
qed

section \<open>Creating a session\<close>

text \<open>
  Claim C6. The handler \<^verbatim>\<open>createSession\<close> alone answers 400 and leaves the store unchanged
  when the identity object or one of the four required fields is missing or empty. The
  route \<^verbatim>\<open>POST /api/sessions\<close> (validation chain, then \<^verbatim>\<open>createSession\<close>) answers 400 and leaves the store unchanged whenever the identity object is missing, the
  full name or the company name is missing or blank, the email is missing or not accepted
  by \<^verbatim>\<open>isEmail\<close>, or the supplier type is not one of the two allowed values. Otherwise it
  appends one new session with status \<open>Active\<close>, no messages and the generated id, and
  answers 201 with the id, identity, status and creation time of the stored session.
\<close>

theorem postSessions_rejects_or_creates:
  "(body = None \<or> field r_fullName body = [] \<or> field r_email body = []
      \<or> field r_companyName body = [] \<or> field r_supplierType body = [] \<longrightarrow>
      createSession uuid now body st =
        (st, BadRequest ''Missing required user information fields''))
   \<and> (body = None \<or> trim (field r_fullName body) = [] \<or> field r_email body = []
      \<or> \<not> isEmail (field r_email body) \<or> trim (field r_companyName body) = []
      \<or> field r_supplierType body \<notin> {''New Supplier'', ''Current Supplier''} \<longrightarrow>
      fst (postSessions isEmail uuid now body st) = st
      \<and> httpStatus (snd (postSessions isEmail uuid now body st)) = 400)
   \<and> (body \<noteq> None \<and> trim (field r_fullName body) \<noteq> [] \<and> field r_email body \<noteq> []
      \<and> isEmail (field r_email body) \<and> trim (field r_companyName body) \<noteq> []
      \<and> field r_supplierType body \<in> {''New Supplier'', ''Current Supplier''} \<longrightarrow>
      (\<exists>s. postSessions isEmail uuid now body st =
               (st @ [s], Created (sessionId s) (userInfo s) (status s) (createdAt s))
           \<and> sessionId s = uuid \<and> status s = Active \<and> messages s = []
           \<and> fullName (userInfo s) = trim (field r_fullName body)
           \<and> email (userInfo s) = field r_email body
           \<and> companyName (userInfo s) = trim (field r_companyName body)
           \<and> supplierType (userInfo s) = field r_supplierType body))"
proof (intro conjI impI)
  assume "body = None \<or> field r_fullName body = [] \<or> field r_email body = []
      \<or> field r_companyName body = [] \<or> field r_supplierType body = []"
  then show "createSession uuid now body st =
        (st, BadRequest ''Missing required user information fields'')"
    by (auto simp: createSession_def field_def split: option.splits)
next
  assume bad: "body = None \<or> trim (field r_fullName body) = [] \<or> field r_email body = []
      \<or> \<not> isEmail (field r_email body) \<or> trim (field r_companyName body) = []
      \<or> field r_supplierType body \<notin> {''New Supplier'', ''Current Supplier''}"
  show "fst (postSessions isEmail uuid now body st) = st"
  proof (cases "createSessionErrors isEmail body = []")
    case False
    then show ?thesis by (simp add: postSessions_def)
  next
    case True
    then have "field r_email body = []"
      using bad by (auto simp: createSessionErrors_def split: if_splits)
    with True show ?thesis
      by (auto simp: postSessions_def createSession_def field_def sanitizeCreate_def
          split: option.splits)
  qed
  show "httpStatus (snd (postSessions isEmail uuid now body st)) = 400"
  proof (cases "createSessionErrors isEmail body = []")
    case False
    then show ?thesis by (simp add: postSessions_def)
  next
    case True
    then have "field r_email body = []"
      using bad by (auto simp: createSessionErrors_def split: if_splits)
    with True show ?thesis
      by (auto simp: postSessions_def createSession_def field_def sanitizeCreate_def
          split: option.splits)
  qed
next
  assume ok: "body \<noteq> None \<and> trim (field r_fullName body) \<noteq> [] \<and> field r_email body \<noteq> []
      \<and> isEmail (field r_email body) \<and> trim (field r_companyName body) \<noteq> []
      \<and> field r_supplierType body \<in> {''New Supplier'', ''Current Supplier''}"
  then obtain ui where ui: "body = Some ui" by auto
  from ok ui obtain fn where fn: "r_fullName ui = Some fn" "trim fn \<noteq> []"
    by (cases "r_fullName ui") (auto simp: field_def trim_Nil)
  from ok ui obtain em where em: "r_email ui = Some em" "em \<noteq> []" "isEmail em"
    by (cases "r_email ui") (auto simp: field_def)
  from ok ui obtain cn where cn: "r_companyName ui = Some cn" "trim cn \<noteq> []"
    by (cases "r_companyName ui") (auto simp: field_def trim_Nil)
  from ok ui obtain sty where sty: "r_supplierType ui = Some sty"
    "sty \<in> {''New Supplier'', ''Current Supplier''}"
    by (cases "r_supplierType ui") (auto simp: field_def)
  from sty(2) have sty_ne: "sty \<noteq> []" by auto
  have noerr: "createSessionErrors isEmail body = []"
    using ui fn em cn sty by (simp add: createSessionErrors_def field_def)
  show "\<exists>s. postSessions isEmail uuid now body st =
               (st @ [s], Created (sessionId s) (userInfo s) (status s) (createdAt s))
           \<and> sessionId s = uuid \<and> status s = Active \<and> messages s = []
           \<and> fullName (userInfo s) = trim (field r_fullName body)
           \<and> email (userInfo s) = field r_email body
           \<and> companyName (userInfo s) = trim (field r_companyName body)
           \<and> supplierType (userInfo s) = field r_supplierType body"
    using ui fn em cn sty(1) sty_ne noerr
    by (simp add: postSessions_def createSession_def sanitizeCreate_def field_def
        newSession_def Let_def)
qed


theorem postSessions_rejects_or_creates_witness:
  "createSession ''s-1'' 100 (Some (janeDoe\<lparr>r_email := None\<rparr>)) [] =
     ([], BadRequest ''Missing required user information fields'')
   \<and> \<not> (\<lambda>s. CHR ''@'' \<in> set s) (field r_email (Some (janeDoe\<lparr>r_email := Some ''jane.x.com''\<rparr>)))
   \<and> fst (postSessions (\<lambda>s. CHR ''@'' \<in> set s) ''s-1'' 100
             (Some (janeDoe\<lparr>r_email := Some ''jane.x.com''\<rparr>)) []) = []
   \<and> httpStatus (snd (postSessions (\<lambda>s. CHR ''@'' \<in> set s) ''s-1'' 100
             (Some (janeDoe\<lparr>r_email := Some ''jane.x.com''\<rparr>)) [])) = 400
   \<and> trim (field r_fullName (Some janeDoe)) = ''Jane Doe''
   \<and> field r_email (Some janeDoe) = ''jane@x.com''
   \<and> trim (field r_companyName (Some janeDoe)) = ''Acme''
   \<and> field r_supplierType (Some janeDoe) = ''Current Supplier''
   \<and> postSessions (\<lambda>s. CHR ''@'' \<in> set s) ''s-1'' 100 (Some janeDoe) [] =
       (janeStore, Created ''s-1'' (userInfo (janeStore ! 0)) Active 100)
   \<and> fst (postSessions (\<lambda>s. CHR ''@'' \<in> set s) ''s-1'' 100
             (Some (janeDoe\<lparr>r_fullName := Some [CHR 0xC2, CHR 0xA0]\<rparr>)) []) = []
   \<and> httpStatus (snd (postSessions (\<lambda>s. CHR ''@'' \<in> set s) ''s-1'' 100
             (Some (janeDoe\<lparr>r_fullName := Some [CHR 0xC2, CHR 0xA0]\<rparr>)) [])) = 400"
proof -
  let ?isEmail = "\<lambda>s. CHR ''@'' \<in> set s"
  let ?bad = "Some (janeDoe\<lparr>r_email := Some ''jane.x.com''\<rparr>)"
  have f: "trim (field r_fullName (Some janeDoe)) = ''Jane Doe''"
    "field r_email (Some janeDoe) = ''jane@x.com''"
    "trim (field r_companyName (Some janeDoe)) = ''Acme''"
    "field r_supplierType (Some janeDoe) = ''Current Supplier''"
    "field r_email ?bad = ''jane.x.com''"
    by (simp_all add: field_def janeDoe_def trim_def whiteSpace1_def whiteSpace2_def whiteSpace3_def)
  have bad: "?bad = None \<or> trim (field r_fullName ?bad) = [] \<or> field r_email ?bad = []
      \<or> \<not> ?isEmail (field r_email ?bad) \<or> trim (field r_companyName ?bad) = []
      \<or> field r_supplierType ?bad \<notin> {''New Supplier'', ''Current Supplier''}"
    by (simp add: f)
  have ok: "Some janeDoe \<noteq> None \<and> trim (field r_fullName (Some janeDoe)) \<noteq> []
      \<and> field r_email (Some janeDoe) \<noteq> []
      \<and> ?isEmail (field r_email (Some janeDoe)) \<and> trim (field r_companyName (Some janeDoe)) \<noteq> []
      \<and> field r_supplierType (Some janeDoe) \<in> {''New Supplier'', ''Current Supplier''}"
    by (simp add: f)
  note rej = postSessions_rejects_or_creates
    [of ?bad "''s-1''" 100 "[]" ?isEmail, THEN conjunct2, THEN conjunct1, THEN mp, OF bad]
  note acc = postSessions_rejects_or_creates
    [of "Some janeDoe" "''s-1''" 100 "[]" ?isEmail, THEN conjunct2, THEN conjunct2, THEN mp, OF ok]
  from acc obtain s where s: "postSessions ?isEmail ''s-1'' 100 (Some janeDoe) [] =
      ([] @ [s], Created (sessionId s) (userInfo s) (status s) (createdAt s))"
     "sessionId s = ''s-1''" "status s = Active"
    by blast
  have errs: "createSessionErrors ?isEmail (Some janeDoe) = []"
    by (simp add: createSessionErrors_def f)
  have san: "sanitizeCreate janeDoe = janeDoe"
    by (simp add: sanitizeCreate_def janeDoe_def trim_def whiteSpace1_def whiteSpace2_def whiteSpace3_def)
  have created: "createSession ''s-1'' 100 (Some janeDoe) [] =
      (janeStore, Created ''s-1'' (userInfo (janeStore ! 0)) Active 100)"
    by (simp add: janeStore_eq) (simp add: createSession_def janeDoe_def newSession_def)
  have direct: "postSessions ?isEmail ''s-1'' 100 (Some janeDoe) [] =
      (janeStore, Created ''s-1'' (userInfo (janeStore ! 0)) Active 100)"
    by (simp add: postSessions_def errs san created)
  have missing: "Some (janeDoe\<lparr>r_email := None\<rparr>) = None
      \<or> field r_fullName (Some (janeDoe\<lparr>r_email := None\<rparr>)) = []
      \<or> field r_email (Some (janeDoe\<lparr>r_email := None\<rparr>)) = []
      \<or> field r_companyName (Some (janeDoe\<lparr>r_email := None\<rparr>)) = []
      \<or> field r_supplierType (Some (janeDoe\<lparr>r_email := None\<rparr>)) = []"
    by (simp add: field_def)
  note ctl = postSessions_rejects_or_creates
    [of "Some (janeDoe\<lparr>r_email := None\<rparr>)" "''s-1''" 100 "[]" ?isEmail,
     THEN conjunct1, THEN mp, OF missing]
  let ?nbsp = "Some (janeDoe\<lparr>r_fullName := Some [CHR 0xC2, CHR 0xA0]\<rparr>)"
  have blank: "?nbsp = None \<or> trim (field r_fullName ?nbsp) = [] \<or> field r_email ?nbsp = []
      \<or> \<not> ?isEmail (field r_email ?nbsp) \<or> trim (field r_companyName ?nbsp) = []
      \<or> field r_supplierType ?nbsp \<notin> {''New Supplier'', ''Current Supplier''}"
    by (simp add: field_def trim_hello)
  note rej2 = postSessions_rejects_or_creates
    [of ?nbsp "''s-1''" 100 "[]" ?isEmail, THEN conjunct2, THEN conjunct1, THEN mp, OF blank]
  from ctl rej rej2 s direct f show ?thesis by simp
qed


section \<open>The history of a session\<close>

lemma evolves_refl: "evolves s s"
  by (simp add: evolves_def)

lemma evolves_trans: "evolves a b \<Longrightarrow> evolves b c \<Longrightarrow> evolves a c"
  by (auto simp: evolves_def intro: prefix_order.trans)

lemma timestampsOk_mono: "timestampsOk t s \<Longrightarrow> t \<le> t' \<Longrightarrow> timestampsOk t' s"
  by (fastforce simp: timestampsOk_def)

lemma addMessage_evolves: "timestampsOk t s \<Longrightarrow> t \<le> now \<Longrightarrow> evolves s (addMessage now who txt md s)"
  by (simp add: evolves_def addMessage_def timestampsOk_def)

lemma addMessage_timestampsOk:
  "timestampsOk t s \<Longrightarrow> t \<le> now \<Longrightarrow> timestampsOk now (addMessage now who txt md s)"
  by (fastforce simp: addMessage_def timestampsOk_def sorted_append)

lemma endSessionDoc_evolves: "evolves s (endSessionDoc now s)"
  by (simp add: evolves_def endSessionDoc_def)

lemma endSessionDoc_timestampsOk: "timestampsOk t s \<Longrightarrow> timestampsOk t (endSessionDoc now s)"
  by (simp add: endSessionDoc_def timestampsOk_def)

lemma storeEvolves_update:
  assumes ok: "\<forall>s \<in> set st. timestampsOk t s" and i: "i < length st"
    and ev: "evolves (st ! i) s'" and ts: "timestampsOk t' s'" and le: "t \<le> t'"
  shows "storeEvolves t' st (st[i := s'])"
proof -
  have "evolves (st ! j) (st[i := s'] ! j)" if "j < length st" for j
    using that ev by (cases "j = i") (simp_all add: evolves_refl)
  moreover have "timestampsOk t' u" if "u \<in> set (st[i := s'])" for u
  proof -
    from that have "u = s' \<or> u \<in> set st" using set_update_subset_insert by fastforce
    with ts ok le show ?thesis by (auto intro: timestampsOk_mono)
  qed
  ultimately show ?thesis by (simp add: storeEvolves_def)
qed

lemma storeEvolves_same:
  "\<forall>s \<in> set st. timestampsOk t s \<Longrightarrow> t \<le> t' \<Longrightarrow> storeEvolves t' st st"
  by (auto simp: storeEvolves_def evolves_refl intro: timestampsOk_mono)

lemma storeEvolves_trans:
  assumes "storeEvolves t st st'" and "storeEvolves t' st' st''"
  shows "storeEvolves t' st st''"
  using assms unfolding storeEvolves_def
  by (auto intro: evolves_trans [where b = "st' ! i" for i])


lemma createSession_storeEvolves:
  assumes "\<forall>s \<in> set st. timestampsOk t s" and "t \<le> now"
  shows "storeEvolves now st (fst (createSession uuid now body st))"
proof (cases "length (fst (createSession uuid now body st)) = length st")
  case True
  then have "fst (createSession uuid now body st) = st"
    by (auto simp: createSession_def Let_def split: option.splits if_splits)
  with assms show ?thesis by (simp add: storeEvolves_same)
next
  case False
  then obtain ui where new: "fst (createSession uuid now body st) = st @ [newSession now uuid ui [] Active]"
    by (auto simp: createSession_def Let_def split: option.splits if_splits)
  have "timestampsOk now (newSession now uuid ui [] Active)"
    by (simp add: timestampsOk_def newSession_def)
  with assms show ?thesis
    by (auto simp: new storeEvolves_def nth_append evolves_refl intro: timestampsOk_mono)
qed

lemma found_ok:
  assumes "findOne P st = Some (i, s)" and "\<forall>u \<in> set st. timestampsOk t u"
  shows "i < length st" and "st ! i = s" and "timestampsOk t s"
proof -
  from findOne_Some [OF assms(1)] show i: "i < length st" and s: "st ! i = s" by simp_all
  from i have "st ! i \<in> set st" by simp
  with assms(2) s show "timestampsOk t s" by auto
qed

lemma addUserMessage_storeEvolves:
  assumes ok: "\<forall>s \<in> set st. timestampsOk t s" and le: "t \<le> now"
  shows "storeEvolves now st (fst (addUserMessage now sid txt st))"
proof (cases "fst (addUserMessage now sid txt st) = st")
  case True
  with assms show ?thesis by (simp add: storeEvolves_same)
next
  case False
  then obtain i s u where f: "findOne (activeWithId sid) st = Some (i, s)"
    and r: "fst (addUserMessage now sid txt st) = st[i := addMessage now User u None s]"
    by (auto simp: addUserMessage_def Let_def split: option.splits if_splits)
  note fo = found_ok [OF f ok]
  show ?thesis unfolding r
    using ok fo(1) fo(2) fo(3) le
    by (intro storeEvolves_update [where t = t]) (simp_all add: addMessage_evolves addMessage_timestampsOk)
qed

lemma addBotMessage_storeEvolves:
  assumes ok: "\<forall>s \<in> set st. timestampsOk t s" and le: "t \<le> now"
  shows "storeEvolves now st (fst (addBotMessage now sid txt md st))"
proof (cases "fst (addBotMessage now sid txt md st) = st")
  case True
  with assms show ?thesis by (simp add: storeEvolves_same)
next
  case False
  then obtain i s u m where f: "findOne (activeWithId sid) st = Some (i, s)"
    and r: "fst (addBotMessage now sid txt md st) = st[i := addMessage now Bot u m s]"
    by (auto simp: addBotMessage_def Let_def split: option.splits if_splits)
  note fo = found_ok [OF f ok]
  show ?thesis unfolding r
    using ok fo(1) fo(2) fo(3) le
    by (intro storeEvolves_update [where t = t]) (simp_all add: addMessage_evolves addMessage_timestampsOk)
qed

lemma addChatInteraction_storeEvolves:
  assumes ok: "\<forall>s \<in> set st. timestampsOk t s" and le: "t \<le> now1" "now1 \<le> now2"
  shows "storeEvolves now2 st (fst (addChatInteraction now1 now2 sid um bm md st))"
proof (cases "fst (addChatInteraction now1 now2 sid um bm md st) = st")
  case True
  with assms show ?thesis by (simp add: storeEvolves_same)
next
  case False
  then obtain i s u b m where f: "findOne (activeWithId sid) st = Some (i, s)"
    and r: "fst (addChatInteraction now1 now2 sid um bm md st) =
            st[i := addMessage now2 Bot b m (addMessage now1 User u None s)]"
    by (auto simp: addChatInteraction_def Let_def split: option.splits if_splits)
  note fo = found_ok [OF f ok]
  have e1: "evolves s (addMessage now1 User u None s)"
    and t1: "timestampsOk now1 (addMessage now1 User u None s)"
    using fo(3) le(1) by (simp_all add: addMessage_evolves addMessage_timestampsOk)
  have e2: "evolves (addMessage now1 User u None s) (addMessage now2 Bot b m (addMessage now1 User u None s))"
    and t2: "timestampsOk now2 (addMessage now2 Bot b m (addMessage now1 User u None s))"
    using t1 le(2) by (simp_all add: addMessage_evolves addMessage_timestampsOk)
  from e1 e2 have e: "evolves (st ! i) (addMessage now2 Bot b m (addMessage now1 User u None s))"
    using fo(2) by (auto intro: evolves_trans)
  show ?thesis unfolding r
    using ok fo(1) e t2 le
    by (intro storeEvolves_update [where t = t]) simp_all
qed

lemma endSession_storeEvolves:
  assumes ok: "\<forall>s \<in> set st. timestampsOk t s" and le: "t \<le> now"
  shows "storeEvolves now st (fst (endSession now sid st))"
proof (cases "findOne (activeWithId sid) st")
  case None
  with assms show ?thesis by (simp add: endSession_def storeEvolves_same)
next
  case (Some a)
  obtain i s where a: "a = (i, s)" by (cases a)
  note fo = found_ok [OF Some [unfolded a] ok]
  have r: "fst (endSession now sid st) = st[i := endSessionDoc now s]"
    using Some a by (simp add: endSession_def Let_def)
  have "timestampsOk now (endSessionDoc now s)"
    using fo(3) le by (auto intro: timestampsOk_mono endSessionDoc_timestampsOk)
  then show ?thesis unfolding r
    using ok fo(1) fo(2) le
    by (intro storeEvolves_update [where t = t]) (simp_all add: endSessionDoc_evolves)
qed

lemma updateActivity_storeEvolves:
  assumes ok: "\<forall>s \<in> set st. timestampsOk t s" and le: "t \<le> now"
  shows "storeEvolves now st (fst (updateActivity now sid st))"
proof (cases "findOne (activeWithId sid) st")
  case None
  with assms show ?thesis by (simp add: updateActivity_def storeEvolves_same)
next
  case (Some a)
  obtain i s where a: "a = (i, s)" by (cases a)
  note fo = found_ok [OF Some [unfolded a] ok]
  have r: "fst (updateActivity now sid st) = st[i := s\<lparr>lastActivity := now\<rparr>]"
    using Some a by (simp add: updateActivity_def Let_def)
  have e: "evolves (st ! i) (s\<lparr>lastActivity := now\<rparr>)"
    using fo(2) fo(3) le by (simp add: evolves_def timestampsOk_def)
  have ts: "timestampsOk now (s\<lparr>lastActivity := now\<rparr>)"
    using fo(3) le by (fastforce simp: timestampsOk_def)
  show ?thesis unfolding r
    using ok fo(1) e ts le
    by (intro storeEvolves_update [where t = t]) simp_all
qed

lemma sweepExpired_storeEvolves:
  assumes ok: "\<forall>s \<in> set st. timestampsOk t s" and le: "t \<le> now"
  shows "storeEvolves now st (fst (sweepExpired now timeout st))"
proof -
  let ?f = "\<lambda>s. if isStale now timeout s then s\<lparr>status := Expired, endedAt := Some now\<rparr> else s"
  have e: "evolves s (?f s)" for s by (simp add: evolves_def)
  have ts: "timestampsOk now (?f s)" if "timestampsOk t s" for s
    using that le by (fastforce simp: timestampsOk_def)
  have "\<forall>u \<in> set (map ?f st). timestampsOk now u"
  proof
    fix u assume "u \<in> set (map ?f st)"
    then obtain s where "s \<in> set st" "u = ?f s" by (auto simp del: if_split)
    with ok ts [of s] show "timestampsOk now u" by (simp del: if_split)
  qed
  moreover have "\<forall>i < length st. evolves (st ! i) (map ?f st ! i)"
    using e by (simp del: if_split)
  ultimately show ?thesis
    by (simp add: sweepExpired_def storeEvolves_def del: if_split)
qed

lemma handle_storeEvolves:
  assumes "\<forall>s \<in> set st. timestampsOk t s" and "sorted (t # clockReadings r)"
  shows "storeEvolves (last (t # clockReadings r)) st (handle r st)"
  using assms
  by (cases r)
     (simp_all add: createSession_storeEvolves addUserMessage_storeEvolves
        addBotMessage_storeEvolves addChatInteraction_storeEvolves endSession_storeEvolves
        updateActivity_storeEvolves sweepExpired_storeEvolves)


lemma run_append: "run st (rs1 @ rs2) = run (run st rs1) rs2"
  by (induction rs1 arbitrary: st) simp_all

lemma sorted_last_step:
  assumes "sorted (t # xs @ ys)"
  shows "sorted (t # xs)" and "sorted (last (t # xs) # ys)" and "last (t # xs @ ys) = last (last (t # xs) # ys)"
    and "t \<le> last (t # xs)"
proof -
  from assms have s: "sorted ((t # xs) @ ys)" by simp
  then show "sorted (t # xs)" using sorted_append by blast
  have "last (t # xs) \<in> set (t # xs)" by (rule last_in_set) simp
  with s have "\<forall>y \<in> set ys. last (t # xs) \<le> y" unfolding sorted_append by blast
  moreover from s have "sorted ys" using sorted_append by blast
  ultimately show "sorted (last (t # xs) # ys)" by simp
  show "last (t # xs @ ys) = last (last (t # xs) # ys)" by (cases ys) simp_all
  from \<open>sorted (t # xs)\<close> show "t \<le> last (t # xs)" by (cases xs) (simp_all)
qed

lemma run_storeEvolves:
  assumes "\<forall>s \<in> set st. timestampsOk t s" and "sorted (t # concat (map clockReadings rs))"
  shows "storeEvolves (last (t # concat (map clockReadings rs))) st (run st rs)"
  using assms
proof (induction rs arbitrary: st t)
  case Nil
  then show ?case by (simp add: storeEvolves_same)
next
  case (Cons r rs)
  let ?t' = "last (t # clockReadings r)"
  let ?rest = "concat (map clockReadings rs)"
  from Cons.prems(2) have srt: "sorted (t # clockReadings r @ ?rest)" by simp
  note st = sorted_last_step [OF srt]
  from handle_storeEvolves [OF Cons.prems(1) st(1)]
  have one: "storeEvolves ?t' st (handle r st)" .
  then have ok': "\<forall>s \<in> set (handle r st). timestampsOk ?t' s" by (simp add: storeEvolves_def)
  from Cons.IH [OF ok' st(2)]
  have "storeEvolves (last (?t' # ?rest)) (handle r st) (run (handle r st) rs)" .
  with one have "storeEvolves (last (?t' # ?rest)) st (run (handle r st) rs)"
    by (rule storeEvolves_trans)
  with st(3) show ?case by simp
qed

text \<open>
  Claim C4. Run any sequence of requests (\<^verbatim>\<open>createSession\<close>, the three message handlers,
  \<^verbatim>\<open>updateActivity\<close>, \<^verbatim>\<open>endSession\<close>, the sweep) from the empty store, with clock readings
  that never go back. For every session present after a first part of the sequence and
  any continuation: the session is still there; if it was \<open>Ended\<close> or \<open>Expired\<close> it is
  not \<open>Active\<close> afterwards; its \<open>lastActivity\<close> has not decreased; its earlier messages
  are a prefix of its later messages; and its message timestamps are in non-decreasing
  order.
\<close>

theorem session_history_monotone:
  assumes "sorted (concat (map clockReadings (rs1 @ rs2)))"
    and "i < length (run [] rs1)"
  shows "i < length (run [] (rs1 @ rs2))
    \<and> (status (run [] rs1 ! i) \<noteq> Active \<longrightarrow> status (run [] (rs1 @ rs2) ! i) \<noteq> Active)
    \<and> lastActivity (run [] rs1 ! i) \<le> lastActivity (run [] (rs1 @ rs2) ! i)
    \<and> prefix (messages (run [] rs1 ! i)) (messages (run [] (rs1 @ rs2) ! i))
    \<and> sorted (map timestamp (messages (run [] (rs1 @ rs2) ! i)))"
proof -
  let ?xs = "concat (map clockReadings rs1)" and ?ys = "concat (map clockReadings rs2)"
  define t0 where "t0 = (case ?xs @ ?ys of [] \<Rightarrow> 0 | t # _ \<Rightarrow> t)"
  from assms(1) have s0: "sorted (?xs @ ?ys)" by simp
  have srt: "sorted (t0 # ?xs @ ?ys)"
  proof (cases "?xs @ ?ys")
    case Nil
    show ?thesis unfolding Nil by simp
  next
    case (Cons a zs)
    then have "t0 = a" by (simp add: t0_def)
    with s0 show ?thesis unfolding Cons by simp
  qed
  note st = sorted_last_step [OF srt]
  have "storeEvolves (last (t0 # ?xs)) [] (run [] rs1)"
    by (rule run_storeEvolves [OF _ st(1)]) simp
  then have ok1: "\<forall>s \<in> set (run [] rs1). timestampsOk (last (t0 # ?xs)) s"
    by (simp add: storeEvolves_def)
  have "storeEvolves (last (last (t0 # ?xs) # ?ys)) (run [] rs1) (run (run [] rs1) rs2)"
    by (rule run_storeEvolves [OF ok1 st(2)])
  then have ev: "storeEvolves (last (last (t0 # ?xs) # ?ys)) (run [] rs1) (run [] (rs1 @ rs2))"
    by (simp add: run_append)
  with assms(2) have len: "i < length (run [] (rs1 @ rs2))"
    and e: "evolves (run [] rs1 ! i) (run [] (rs1 @ rs2) ! i)"
    by (simp_all add: storeEvolves_def)
  from len have "run [] (rs1 @ rs2) ! i \<in> set (run [] (rs1 @ rs2))" by simp
  with ev have "timestampsOk (last (last (t0 # ?xs) # ?ys)) (run [] (rs1 @ rs2) ! i)"
    unfolding storeEvolves_def by blast
  then have "sorted (map timestamp (messages (run [] (rs1 @ rs2) ! i)))"
    by (simp add: timestampsOk_def)
  with len e show ?thesis by (simp add: evolves_def)
qed

lemma janeRun1:
  "run [] janeRequests1 =
     [(janeStore ! 0)\<lparr>messages := [\<lparr>sender = User, msgText = ''hello'', timestamp = 200, metadata = None\<rparr>],
        status := Ended, lastActivity := 200, endedAt := Some 300\<rparr>]"
  by (simp add: janeRequests1_def janeStore_def [symmetric])
     (simp add: janeStore_eq addUserMessage_def endSession_def activeWithId_def addMessage_def
        endSessionDoc_def trim_def whiteSpace1_def whiteSpace2_def whiteSpace3_def)

lemma janeRun2:
  "run (run [] janeRequests1) janeRequests2 =
     run [] janeRequests1 @ [newSession 700 ''s-2'' (userInfo (janeStore ! 0)) [] Active]"
  unfolding janeRun1
  by (simp add: janeRequests2_def janeStore_eq addUserMessage_def updateActivity_def
        activeWithId_def trim_def whiteSpace1_def whiteSpace2_def whiteSpace3_def sweepExpired_def isStale_def createSession_def
        janeDoe_def Let_def)

theorem session_history_monotone_witness:
  "sorted (concat (map clockReadings (janeRequests1 @ janeRequests2)))
   \<and> 0 < length (run [] janeRequests1)
   \<and> status (run [] janeRequests1 ! 0) = Ended
   \<and> status (run [] (janeRequests1 @ janeRequests2) ! 0) = Ended
   \<and> lastActivity (run [] janeRequests1 ! 0) \<le> lastActivity (run [] (janeRequests1 @ janeRequests2) ! 0)
   \<and> prefix (messages (run [] janeRequests1 ! 0)) (messages (run [] (janeRequests1 @ janeRequests2) ! 0))
   \<and> sorted (map timestamp (messages (run [] (janeRequests1 @ janeRequests2) ! 0)))
   \<and> length (run [] (janeRequests1 @ janeRequests2)) = 2"
proof -
  have h1: "sorted (concat (map clockReadings (janeRequests1 @ janeRequests2)))"
    by (simp add: janeRequests1_def janeRequests2_def)
  have h2: "0 < length (run [] janeRequests1)"
    by (simp add: janeRun1)
  have e: "status (run [] janeRequests1 ! 0) = Ended"
    "status (run [] (janeRequests1 @ janeRequests2) ! 0) = Ended"
    "length (run [] (janeRequests1 @ janeRequests2)) = 2"
    by (simp_all add: run_append janeRun2) (simp_all add: janeRun1)
  from session_history_monotone [OF h1 h2] h1 h2 e show ?thesis by simp
qed


section \<open>The HTML summary\<close>


lemma escapeHtml_append: "escapeHtml (a @ b) = escapeHtml a @ escapeHtml b"
  by (induction a) simp_all

lemma escapeHtml_no_markup: "filter isMarkup (escapeHtml t) = []"
proof (induction t)
  case Nil
  then show ?case by simp
next
  case (Cons c cs)
  have "filter isMarkup (case escapeMap c of Some e \<Rightarrow> e | None \<Rightarrow> [c]) = []"
    by (simp add: escapeMap_def isMarkup_def)
  with Cons show ?case by simp
qed

lemma messageOpenHtml_text: "messageOpenHtml fmt (m\<lparr>msgText := t\<rparr>) = messageOpenHtml fmt m"
  by (simp add: messageOpenHtml_def)

lemma metadataHtml_text: "metadataHtml str (m\<lparr>msgText := t\<rparr>) = metadataHtml str m"
  by (simp add: metadataHtml_def)

lemma metadataHtml_markup: "filter isMarkup (metadataHtml str m) = filter isMarkup (metadataHtml str' m)"
  by (simp add: metadataHtml_def escapeHtml_no_markup split: option.splits)

lemma messageHtml_markup:
  "filter isMarkup (messageHtml fmt str (m\<lparr>msgText := t\<rparr>)) = filter isMarkup (messageHtml fmt str' m)"
  using metadataHtml_markup [of str m str']
  by (simp add: messageHtml_def messageOpenHtml_text metadataHtml_text escapeHtml_no_markup)

lemma transcriptHtml_markup:
  "filter isMarkup (transcriptHtml fmt str (map (\<lambda>m. m\<lparr>msgText := f m\<rparr>) ms)) =
   filter isMarkup (transcriptHtml fmt str' ms)"
proof -
  have "filter isMarkup (concat (map (messageHtml fmt str) (map (\<lambda>m. m\<lparr>msgText := f m\<rparr>) ms))) =
        filter isMarkup (concat (map (messageHtml fmt str') ms))"
    by (induction ms) (simp_all add: messageHtml_markup)
  then show ?thesis by (simp add: transcriptHtml_def)
qed

lemma userInfoHtml_fullName:
  \<open>\<exists>pre post. \<forall>n. userInfoHtml (ui\<lparr>fullName := n\<rparr>) = pre @ n @ post\<close>
  unfolding userInfoHtml_def
  by (intro exI [of _ \<open>''      <div class="info-grid">'' @ nl @
     ''        <div class="info-label">Name:</div>'' @ nl @
     ''        <div class="info-value">''\<close>] exI allI) simp


text \<open>
  Claim C10. \<^verbatim>\<open>escapeHtml\<close> leaves none of the characters \<^verbatim>\<open><\<close>, \<^verbatim>\<open>>\<close>, double quote and
  single quote in its result and puts the entity in place of every occurrence of the five
  characters. The HTML of a message contains its text, and its metadata when it has
  some, only as the result of \<^verbatim>\<open>escapeHtml\<close>; so the markup characters of the whole summary
  are the same whatever the texts and the serialised metadata of the messages are. The
  full name of the user stands in the summary as it is.

  The summary contains the transcript: for a session whose messages are \<open>before\<close>, \<open>m\<close>,
  \<open>after\<close>, the summary is the head, the rows of the user, the HTML of the messages
  \<open>before\<close>, then the opening of the HTML of \<open>m\<close>, the escaped text of \<open>m\<close>, the metadata block
  of \<open>m\<close>, then the HTML of the messages \<open>after\<close> and the footer, in this order and with
  nothing else. The metadata block of a message with metadata holds the escaped
  serialisation of the metadata; it is empty for a message with no metadata or with an
  empty object. The summary of a session with no messages holds the sentence
  "(No messages in this session)" in place of the transcript. The last two conjuncts are
  the HTML of one user message and of one bot message with metadata, whose texts hold
  markup.
\<close>

theorem escapeHtml_guards_message_content:
  \<open>filter isMarkup (escapeHtml t) = []
   \<and> escapeHtml (a @ [c] @ b) =
       escapeHtml a @
       (if c = CHR ''&'' then ''&amp;'' else if c = CHR ''<'' then ''&lt;''
        else if c = CHR ''>'' then ''&gt;'' else if c = CHR 0x22 then ''&quot;''
        else if c = CHR 0x27 then ''&#039;'' else [c]) @
       escapeHtml b
   \<and> (\<exists>pre post. \<forall>t. messageHtml fmt str (m\<lparr>msgText := t\<rparr>) = pre @ escapeHtml t @ post)
   \<and> (\<exists>pre post. \<forall>str. messageHtml fmt str (m\<lparr>metadata := Some (kv # md)\<rparr>) =
                        pre @ escapeHtml (str (kv # md)) @ post)
   \<and> filter isMarkup
         (buildHtmlSummary fmt str headHtml generated
            (s\<lparr>messages := map (\<lambda>m. m\<lparr>msgText := f m\<rparr>) (messages s)\<rparr>)) =
       filter isMarkup (buildHtmlSummary fmt str' headHtml generated s)
   \<and> (\<exists>pre post. \<forall>n. buildHtmlSummary fmt str headHtml generated
                         (s\<lparr>userInfo := (userInfo s)\<lparr>fullName := n\<rparr>\<rparr>) = pre @ n @ post)
   \<and> buildHtmlSummary fmt str headHtml generated (s\<lparr>messages := before @ [m] @ after\<rparr>) =
       headHtml @ userInfoHtml (userInfo s) @
       concat (map (messageHtml fmt str) before) @
       messageOpenHtml fmt m @ escapeHtml (msgText m) @ ''</div>'' @ nl @ ''      '' @
       metadataHtml str m @ ''</div>'' @
       concat (map (messageHtml fmt str) after) @
       nl @ ''    </div>'' @ nl @
       ''    '' @ nl @
       ''    <div class="footer">'' @ nl @
       ''      <p>Generated on '' @ fmt generated @ ''</p>'' @ nl @
       ''      <p>Yazaki Chatbot System | Session Management</p>'' @ nl @
       ''    </div>'' @ nl @
       ''  </div>'' @ nl @
       ''</body>'' @ nl @
       ''</html>'' @ nl @
       ''  ''
   \<and> metadataHtml str (m\<lparr>metadata := Some (kv # md)\<rparr>) =
       nl @ ''        <div class="metadata">'' @ nl @
       ''          <strong>Metadata:</strong> '' @ escapeHtml (str (kv # md)) @ nl @
       ''        </div>'' @ nl @
       ''        ''
   \<and> metadataHtml str (m\<lparr>metadata := None\<rparr>) = []
   \<and> metadataHtml str (m\<lparr>metadata := Some []\<rparr>) = []
   \<and> buildHtmlSummary fmt str headHtml generated (s\<lparr>messages := []\<rparr>) =
       headHtml @ userInfoHtml (userInfo s) @
       ''<p style="color: #666; font-style: italic;">(No messages in this session)</p>'' @
       nl @ ''    </div>'' @ nl @
       ''    '' @ nl @
       ''    <div class="footer">'' @ nl @
       ''      <p>Generated on '' @ fmt generated @ ''</p>'' @ nl @
       ''      <p>Yazaki Chatbot System | Session Management</p>'' @ nl @
       ''    </div>'' @ nl @
       ''  </div>'' @ nl @
       ''</body>'' @ nl @
       ''</html>'' @ nl @
       ''  ''
   \<and> messageHtml (\<lambda>t. ''12:00'') str
         \<lparr>sender = User, msgText = ''<b>Tom & "Al"</b>'', timestamp = 0, metadata = None\<rparr> =
       [CHR 0x0A] @ ''      <div class="message message-user">'' @ [CHR 0x0A] @
       ''        <div class="message-header">'' @ [CHR 0x0A] @
       ''          <span class="message-sender message-sender-user">User</span>'' @ [CHR 0x0A] @
       ''          <span class="message-time">12:00</span>'' @ [CHR 0x0A] @
       ''        </div>'' @ [CHR 0x0A] @
       ''        <div class="message-text">&lt;b&gt;Tom &amp; &quot;Al&quot;&lt;/b&gt;</div>'' @
       [CHR 0x0A] @ ''      </div>''
   \<and> messageHtml (\<lambda>t. ''12:01'') (\<lambda>md. ''{<k>}'')
         \<lparr>sender = Bot, msgText = [CHR 0x27] @ ''x'', timestamp = 1,
          metadata = Some [(''k'', ''v'')]\<rparr> =
       [CHR 0x0A] @ ''      <div class="message message-bot">'' @ [CHR 0x0A] @
       ''        <div class="message-header">'' @ [CHR 0x0A] @
       ''          <span class="message-sender message-sender-bot">Bot</span>'' @ [CHR 0x0A] @
       ''          <span class="message-time">12:01</span>'' @ [CHR 0x0A] @
       ''        </div>'' @ [CHR 0x0A] @
       ''        <div class="message-text">&#039;x</div>'' @ [CHR 0x0A] @
       ''      '' @ [CHR 0x0A] @
       ''        <div class="metadata">'' @ [CHR 0x0A] @
       ''          <strong>Metadata:</strong> {&lt;k&gt;}'' @ [CHR 0x0A] @
       ''        </div>'' @ [CHR 0x0A] @
       ''        </div>''\<close>
proof (intro conjI)
  show "filter isMarkup (escapeHtml t) = []" by (rule escapeHtml_no_markup)
  show \<open>escapeHtml (a @ [c] @ b) =
       escapeHtml a @
       (if c = CHR ''&'' then ''&amp;'' else if c = CHR ''<'' then ''&lt;''
        else if c = CHR ''>'' then ''&gt;'' else if c = CHR 0x22 then ''&quot;''
        else if c = CHR 0x27 then ''&#039;'' else [c]) @
       escapeHtml b\<close>
    by (simp add: escapeHtml_append escapeMap_def)
  have "\<forall>t. messageHtml fmt str (m\<lparr>msgText := t\<rparr>) =
          messageOpenHtml fmt m @ escapeHtml t @
          (''</div>'' @ nl @ ''      '' @ metadataHtml str m @ ''</div>'')"
    by (simp add: messageHtml_def messageOpenHtml_text metadataHtml_text)
  then show "\<exists>pre post. \<forall>t. messageHtml fmt str (m\<lparr>msgText := t\<rparr>) = pre @ escapeHtml t @ post"
    by blast
  have \<open>\<forall>str. messageHtml fmt str (m\<lparr>metadata := Some (kv # md)\<rparr>) =
          (messageOpenHtml fmt m @ escapeHtml (msgText m) @ ''</div>'' @ nl @ ''      '' @
           nl @ ''        <div class="metadata">'' @ nl @ ''          <strong>Metadata:</strong> '') @
          escapeHtml (str (kv # md)) @
          (nl @ ''        </div>'' @ nl @ ''        '' @ ''</div>'')\<close>
    by (simp add: messageHtml_def messageOpenHtml_def metadataHtml_def)
  then show "\<exists>pre post. \<forall>str. messageHtml fmt str (m\<lparr>metadata := Some (kv # md)\<rparr>) =
                        pre @ escapeHtml (str (kv # md)) @ post"
    by blast
  show "filter isMarkup
         (buildHtmlSummary fmt str headHtml generated
            (s\<lparr>messages := map (\<lambda>m. m\<lparr>msgText := f m\<rparr>) (messages s)\<rparr>)) =
       filter isMarkup (buildHtmlSummary fmt str' headHtml generated s)"
    using transcriptHtml_markup [of fmt str f "messages s" str']
    by (simp add: buildHtmlSummary_def)
  obtain pre post where pp: "\<forall>n. userInfoHtml ((userInfo s)\<lparr>fullName := n\<rparr>) = pre @ n @ post"
    using userInfoHtml_fullName by blast
  have "\<forall>n. buildHtmlSummary fmt str headHtml generated
                         (s\<lparr>userInfo := (userInfo s)\<lparr>fullName := n\<rparr>\<rparr>) =
          (headHtml @ pre) @ n @
          (post @ drop (length (headHtml @ userInfoHtml (userInfo s)))
                    (buildHtmlSummary fmt str headHtml generated s))"
    by (simp add: buildHtmlSummary_def pp)
  then show "\<exists>pre post. \<forall>n. buildHtmlSummary fmt str headHtml generated
                         (s\<lparr>userInfo := (userInfo s)\<lparr>fullName := n\<rparr>\<rparr>) = pre @ n @ post"
    by blast
qed (simp_all add: buildHtmlSummary_def transcriptHtml_def messageHtml_def
       messageOpenHtml_def metadataHtml_def escapeMap_def nl_def)


section \<open>Retries of the API client\<close>


lemma retryLoop_all_fail:
  assumes "\<forall>k. a \<le> k \<and> k \<le> n \<longrightarrow> send k = Inl (err k)" and "a \<le> n + 1"
  shows "retryLoop n d send a lastError slept =
           (Inl (if a \<le> n then Some (err n) else lastError), n, slept @ map (\<lambda>k. d * k) [a..n - 1])"
  using assms
proof (induction n d send a lastError slept rule: retryLoop.induct)
  case (1 n d send a lastError slept)
  show ?case
  proof (cases "a \<le> n")
    case False
    with "1.prems"(2) have "a = n + 1" by simp
    then show ?thesis by (subst retryLoop.simps) simp
  next
    case True
    with "1.prems"(1) have fail: "send a = Inl (err a)" by simp
    have ih: "retryLoop n d send (a + 1) (Some (err a))
                (if a < n then slept @ [d * a] else slept) =
              (Inl (if a + 1 \<le> n then Some (err n) else Some (err a)), n,
               (if a < n then slept @ [d * a] else slept) @ map (\<lambda>k. d * k) [a + 1..n - 1])"
      using "1.IH" [OF True fail] "1.prems"(1) True by simp
    have step: "retryLoop n d send a lastError slept =
                retryLoop n d send (a + 1) (Some (err a)) (if a < n then slept @ [d * a] else slept)"
      using True fail by (subst retryLoop.simps) simp
    show ?thesis
    proof (cases "a < n")
      case lt: True
      then have "[a..n - 1] = a # [a + 1..n - 1]" by (simp add: upto_rec1)
      with lt True show ?thesis unfolding step ih by simp
    next
      case ge: False
      with True have "a = n" by simp
      then show ?thesis unfolding step ih by simp
    qed
  qed
qed

text \<open>
  Claim C8, as amended. \<^verbatim>\<open>sendMessageWithRetry\<close> does not look at the kind of an error: when
  every attempt fails, whatever the errors are (a 404 or a 400 of the server included), it
  makes \<^verbatim>\<open>maxAttempts\<close> attempts, sleeps \<^verbatim>\<open>delayMs * attempt\<close> after each failed attempt but
  the last, and throws the error of the last attempt.
\<close>

theorem sendMessageWithRetry_retries_every_failure:
  assumes "\<forall>k. 1 \<le> k \<and> k \<le> maxAttempts config \<longrightarrow>
             sendMessage message sid (server k) = Inl (err k)"
    and "1 \<le> maxAttempts config"
  shows "sendMessageWithRetry config message sid server =
           (Inl (Some (err (maxAttempts config))), maxAttempts config,
            map (\<lambda>k. delayMs config * k) [1..maxAttempts config - 1])"
proof -
  from assms(2) have "1 \<le> maxAttempts config + 1" by simp
  from retryLoop_all_fail [where send = "\<lambda>k. sendMessage message sid (server k)", OF assms(1) this]
  show ?thesis using assms(2) by (simp add: sendMessageWithRetry_def)
qed

lemma sendMessage_alwaysNotFound:
  "sendMessage ''What is PPAP?'' ''s-1'' (alwaysNotFound k) = Inl (Error ''Active session not found'')"
  by (simp add: sendMessage_def alwaysNotFound_def trim_def whiteSpace1_def whiteSpace2_def whiteSpace3_def)

text \<open>
  Claim C8 as stated fails: with the shipped configuration, a message to a server that
  answers 404 "Active session not found" is sent three times, with pauses of 1000 and
  2000 ms, before the error reaches the caller; and the empty message, which
  \<^verbatim>\<open>sendMessage\<close> refuses before any request, is tried three times as well.
\<close>

theorem sendMessageWithRetry_not_found_counterexample:
  "sendMessageWithRetry API_CONFIG_retry ''What is PPAP?'' ''s-1'' alwaysNotFound =
     (Inl (Some (Error ''Active session not found'')), 3, [1000, 2000])
   \<and> sendMessageWithRetry API_CONFIG_retry [] ''s-1'' alwaysNotFound =
     (Inl (Some (Error ''Message cannot be empty'')), 3, [1000, 2000])"
proof -
  have empty: "sendMessage [] ''s-1'' (alwaysNotFound k) = Inl (Error ''Message cannot be empty'')" for k
    by (simp add: sendMessage_def)
  show ?thesis
    by (simp add: sendMessageWithRetry_def API_CONFIG_retry_def retryLoop.simps
          sendMessage_alwaysNotFound empty)
qed

theorem sendMessageWithRetry_retries_every_failure_witness:
  "sendMessage ''What is PPAP?'' ''s-1'' (alwaysNotFound 1) = Inl (Error ''Active session not found'')
   \<and> sendMessage ''What is PPAP?'' ''s-1'' (alwaysNotFound 2) = Inl (Error ''Active session not found'')
   \<and> sendMessage ''What is PPAP?'' ''s-1'' (alwaysNotFound 3) = Inl (Error ''Active session not found'')
   \<and> 1 \<le> maxAttempts API_CONFIG_retry
   \<and> fst (snd (sendMessageWithRetry API_CONFIG_retry ''What is PPAP?'' ''s-1'' alwaysNotFound)) = 3
   \<and> fst (sendMessageWithRetry API_CONFIG_retry ''What is PPAP?'' ''s-1'' alwaysNotFound) =
       Inl (Some (Error ''Active session not found''))"
proof -
  have h1: "\<forall>k. 1 \<le> k \<and> k \<le> maxAttempts API_CONFIG_retry \<longrightarrow>
      sendMessage ''What is PPAP?'' ''s-1'' (alwaysNotFound k) =
      Inl ((\<lambda>k. Error ''Active session not found'') k)"
    by (simp add: sendMessage_alwaysNotFound)
  have h2: "1 \<le> maxAttempts API_CONFIG_retry" by (simp add: API_CONFIG_retry_def)
  from sendMessageWithRetry_retries_every_failure [OF h1 h2] h2
  show ?thesis by (simp add: sendMessage_alwaysNotFound API_CONFIG_retry_def)
qed


section \<open>The summary email and the session state\<close>

text \<open>
  What the sources show of the summary email. Whatever the mail environment, the transport
  and the content builders do, \<^verbatim>\<open>sendSummaryEmail\<close> returns a result and throws nothing; it
  reads the store and writes nothing to it. The handler \<^verbatim>\<open>sendSessionSummary\<close> is a request
  of its own, which no handler of the session controller issues: \<^verbatim>\<open>endSession\<close> sends no
  summary. It answers 200 when the email was sent and 500 when it was not.
\<close>

lemma sendSummaryEmail_returns:
  "\<exists>r. sendSummaryEmail env sendMail buildPlain buildHtml now sid st = Inr r"
  by (cases "sendSummaryEmailTry env sendMail buildPlain buildHtml now sid st")
     (simp_all add: sendSummaryEmail_def tryCatch_def)

lemma sendSummaryEmail_failure:
  "sendSummaryEmailTry env sendMail buildPlain buildHtml now sid st = Inl error \<Longrightarrow>
     sendSummaryEmail env sendMail buildPlain buildHtml now sid st =
       Inr (Failure (''Failed to send email: '' @ error) sid error now)"
  by (simp add: sendSummaryEmail_def tryCatch_def)

lemma sendSessionSummary_status:
  "httpStatus (snd (sendSessionSummary env sendMail buildPlain buildHtml now sid st)) =
     (case sendSummaryEmailTry env sendMail buildPlain buildHtml now sid st of
        Inl error \<Rightarrow> 500 | Inr r \<Rightarrow> (case r of Confirmation a b c d e f g h \<Rightarrow> 200 | Failure a b c d \<Rightarrow> 500))"
  by (simp add: sendSessionSummary_def sendSummaryEmail_def tryCatch_def
      split: sum.splits summaryResult.splits)

lemma sendSummaryEmail_example:
  "sendSummaryEmail noAdminEnv failingTransport plainOf plainOf 400 ''s-1'' st =
     Inr (Failure ''Failed to send email: ADMIN_EMAIL not configured in .env file'' ''s-1''
            ''ADMIN_EMAIL not configured in .env file'' 400)"
  by (simp add: sendSummaryEmail_def tryCatch_def sendSummaryEmailTry_def noAdminEnv_def)

text \<open>
  \<^verbatim>\<open>closeChat\<close> of the frontend asks the server to close the session and to send the
  summary (\<^verbatim>\<open>closeSession(true)\<close>), and closes the window whatever the answer is. When the
  request fails, the API client keeps its session id (\<^verbatim>\<open>resetSession\<close> comes after the
  \<^verbatim>\<open>throw\<close>); when it succeeds, the client has a new session id. The server of this request
  is not among the sources.
\<close>

lemma closeChat_not_asked:
  "\<not> formSubmitted ui \<or> falsy (apiSessionId ui) \<Longrightarrow>
     closeChat ui freshId fetched = Inr (ui\<lparr>isOpen := False\<rparr>)"
  by (auto simp: closeChat_def)

lemma closeChat_failed:
  "closeSession (apiSessionId ui) freshId fetched = Inl error \<Longrightarrow>
     closeChat ui freshId fetched = Inr (ui\<lparr>isOpen := False\<rparr>)"
  by (simp add: closeChat_def sendSessionCloseEmail_def)

lemma closeChat_closed:
  "formSubmitted ui \<Longrightarrow> closeSession (apiSessionId ui) freshId fetched = Inr (result, newId) \<Longrightarrow>
     closeChat ui freshId fetched = Inr (ui\<lparr>isOpen := False, apiSessionId := Some freshId\<rparr>)"
  by (cases "falsy (apiSessionId ui)")
     (auto simp: closeChat_def sendSessionCloseEmail_def closeSession_def
           split: fetchResult.splits option.splits if_splits)

lemma closeChat_example:
  "closeChat \<lparr>isOpen = True, formSubmitted = True, apiSessionId = Some ''s-1''\<rparr> ''s-2''
        (Rejected (Error ''Failed to fetch'')) =
      Inr \<lparr>isOpen = False, formSubmitted = True, apiSessionId = Some ''s-1''\<rparr>"
  by (simp add: closeChat_def sendSessionCloseEmail_def closeSession_def)


section \<open>The unified block of the Response Coordinator\<close>


lemma addLinks_urls: "url ` set (addLinks added ls) = url ` set added \<union> url ` set ls"
  by (induction ls arbitrary: added) auto

lemma addLinks_distinct: "distinct (map url added) \<Longrightarrow> distinct (map url (addLinks added ls))"
  by (induction ls arbitrary: added) auto

lemma addLinks_extends: "\<exists>rest. addLinks added ls = added @ rest \<and> subseq rest ls"
proof (induction ls arbitrary: added)
  case Nil
  then show ?case by simp
next
  case (Cons a ls)
  show ?case
  proof (cases "url a \<in> set (map url added)")
    case True
    from Cons.IH [of added] obtain rest where "addLinks added ls = added @ rest" "subseq rest ls"
      by (elim exE conjE)
    with True have "addLinks added (a # ls) = added @ rest \<and> subseq rest (a # ls)"
      by (simp add: list_emb_Cons)
    then show ?thesis ..
  next
    case False
    from Cons.IH [of "added @ [a]"] obtain rest where
      "addLinks (added @ [a]) ls = (added @ [a]) @ rest" "subseq rest ls"
      by (elim exE conjE)
    with False have "addLinks added (a # ls) = added @ (a # rest) \<and> subseq (a # rest) (a # ls)"
      by simp
    then show ?thesis ..
  qed
qed

lemma addLinks_first:
  "l \<in> set (addLinks added ls) \<Longrightarrow>
     l \<in> set added \<or> (url l \<notin> url ` set added \<and> List.find (\<lambda>x. url x = url l) ls = Some l)"
proof (induction ls arbitrary: added)
  case Nil
  then show ?case by simp
next
  case (Cons a ls)
  show ?case
  proof (cases "url a \<in> set (map url added)")
    case True
    with Cons.prems have "l \<in> set (addLinks added ls)" by simp
    from Cons.IH [OF this] show ?thesis
    proof
      assume "l \<in> set added" then show ?thesis ..
    next
      assume r: "url l \<notin> url ` set added \<and> List.find (\<lambda>x. url x = url l) ls = Some l"
      with True have "url a \<noteq> url l" by auto
      with r show ?thesis by simp
    qed
  next
    case False
    with Cons.prems have "l \<in> set (addLinks (added @ [a]) ls)" by simp
    from Cons.IH [OF this] show ?thesis
    proof
      assume "l \<in> set (added @ [a])"
      then consider "l \<in> set added" | "l = a" by auto
      then show ?thesis
      proof cases
        case 1 then show ?thesis ..
      next
        case 2
        with False show ?thesis by simp
      qed
    next
      assume r: "url l \<notin> url ` set (added @ [a]) \<and> List.find (\<lambda>x. url x = url l) ls = Some l"
      then have "url a \<noteq> url l" "url l \<notin> url ` set added" by auto
      with r show ?thesis by simp
    qed
  qed
qed

text \<open>
  Claim C5. When two or more processors fire, \<^verbatim>\<open>augment\<close> appends one unified block: the
  introductory sentence and the unified links. The firing processors are in registration
  order; the unified links are taken, in order, from the links of the firing processors
  one after the other; their urls are exactly the urls of the firing processors' links;
  no url occurs twice; and the link kept for a url is the first one with that url.
\<close>

theorem augment_unified_block:
  assumes "2 \<le> length (firing processors answerText queryText)"
  shows "augment intro renderLink answerText queryText processors =
           answerText @ intro @
           concat (map renderLink (unifiedLinks (firing processors answerText queryText)))
   \<and> subseq (unifiedLinks (firing processors answerText queryText))
        (concat (map links (firing processors answerText queryText)))
   \<and> subseq (firing processors answerText queryText) processors
   \<and> url ` set (unifiedLinks (firing processors answerText queryText)) =
       (\<Union>p \<in> set (firing processors answerText queryText). url ` set (links p))
   \<and> distinct (map url (unifiedLinks (firing processors answerText queryText)))
   \<and> (\<forall>l \<in> set (unifiedLinks (firing processors answerText queryText)).
         List.find (\<lambda>x. url x = url l)
           (concat (map links (firing processors answerText queryText))) = Some l)"
proof -
  let ?fs = "firing processors answerText queryText"
  obtain p q rest where fs: "?fs = p # q # rest"
  proof (cases ?fs)
    case Nil
    with assms show ?thesis by simp
  next
    case c1: (Cons p ps)
    show ?thesis
    proof (cases ps)
      case Nil
      with c1 assms show ?thesis by simp
    next
      case (Cons q rest)
      with c1 that show ?thesis by simp
    qed
  qed
  have a: "augment intro renderLink answerText queryText processors =
           answerText @ intro @ concat (map renderLink (unifiedLinks ?fs))"
    by (simp add: augment_def fs)
  have b: "subseq (unifiedLinks ?fs) (concat (map links ?fs))"
    using addLinks_extends [of "[]" "concat (map links ?fs)"] by (auto simp: unifiedLinks_def)
  have c: "subseq ?fs processors" by (simp add: firing_def)
  have "url ` set (unifiedLinks ?fs) = url ` set (concat (map links ?fs))"
    by (simp add: unifiedLinks_def addLinks_urls)
  also have "\<dots> = (\<Union>p \<in> set ?fs. url ` set (links p))" by auto
  finally have d: "url ` set (unifiedLinks ?fs) = (\<Union>p \<in> set ?fs. url ` set (links p))" .
  have e: "distinct (map url (unifiedLinks ?fs))"
    by (simp add: unifiedLinks_def addLinks_distinct)
  have f: "\<forall>l \<in> set (unifiedLinks ?fs).
         List.find (\<lambda>x. url x = url l) (concat (map links ?fs)) = Some l"
  proof
    fix l assume "l \<in> set (unifiedLinks ?fs)"
    then have "l \<in> set (addLinks [] (concat (map links ?fs)))" by (simp add: unifiedLinks_def)
    from addLinks_first [OF this]
    show "List.find (\<lambda>x. url x = url l) (concat (map links ?fs)) = Some l" by simp
  qed
  from a b c d e f show ?thesis by (intro conjI)
qed


lemma firing_example:
  "firing [apqpProcessor, brokenProcessor, ppapProcessor] ''Both apply.'' ''APQP and PPAP submission?'' =
     [apqpProcessor, ppapProcessor]"
  by (simp add: firing_def apqpProcessor_def brokenProcessor_def ppapProcessor_def)

lemma unifiedLinks_example:
  "unifiedLinks [apqpProcessor, ppapProcessor] =
     [\<lparr>label = ''APQP Quick Access Guide'', url = ''u1''\<rparr>,
      \<lparr>label = ''Portal Guide'', url = ''u2''\<rparr>,
      \<lparr>label = ''PPAP Submission Guide'', url = ''u3''\<rparr>]"
  by (simp add: unifiedLinks_def apqpProcessor_def ppapProcessor_def)

theorem augment_unified_block_witness:
  "2 \<le> length (firing [apqpProcessor, brokenProcessor, ppapProcessor] ''Both apply.''
                  ''APQP and PPAP submission?'')
   \<and> augment '' Guides: '' (\<lambda>l. ''['' @ url l @ '']'') ''Both apply.'' ''APQP and PPAP submission?''
        [apqpProcessor, brokenProcessor, ppapProcessor] =
      ''Both apply. Guides: [u1][u2][u3]''
   \<and> map url (unifiedLinks (firing [apqpProcessor, brokenProcessor, ppapProcessor] ''Both apply.''
                               ''APQP and PPAP submission?'')) = [''u1'', ''u2'', ''u3'']
   \<and> map label (unifiedLinks (firing [apqpProcessor, brokenProcessor, ppapProcessor] ''Both apply.''
                                 ''APQP and PPAP submission?'')) =
       [''APQP Quick Access Guide'', ''Portal Guide'', ''PPAP Submission Guide'']"
proof -
  have h: "2 \<le> length (firing [apqpProcessor, brokenProcessor, ppapProcessor] ''Both apply.''
                  ''APQP and PPAP submission?'')"
    by (simp add: firing_example)
  from augment_unified_block [OF h, of "'' Guides: ''" "\<lambda>l. ''['' @ url l @ '']''"] h
  show ?thesis by (simp add: firing_example unifiedLinks_example)
qed


section \<open>The events of a stream\<close>














lemma stream_failed_example:
  "stream ''abc123'' [''PPAP submission''] (Some ''model unavailable'') ''{}'' False None =
       [StatusEvent ''retrieving'' ''abc123'', StatusEvent ''generating'' ''abc123'',
        DataEvent ''PPAP submission'' ''PPAP submission'' False None,
        ErrorEvent ''model unavailable'']"
  "stream ''abc123'' [''PPAP submission''] (Some ''model unavailable'') ''{}'' True None =
       [StatusEvent ''retrieving'' ''abc123'', StatusEvent ''generating'' ''abc123'',
        DataEvent ''PPAP submission'' ''PPAP submission'' False None,
        ErrorEvent ''model unavailable'', DoneSentinel]"
  by (simp_all add: stream_def)

lemma stream_cancelled_example:
  "stream ''abc123'' [''PPAP submission'', '' levels are''] None ''{}'' sae (Some 3) =
     [StatusEvent ''retrieving'' ''abc123'', StatusEvent ''generating'' ''abc123'',
      DataEvent ''PPAP submission'' ''PPAP submission'' False None]"
  "stream ''abc123'' [''PPAP submission'', '' levels are''] None ''{}'' sae (Some 9) =
     [StatusEvent ''retrieving'' ''abc123'', StatusEvent ''generating'' ''abc123'',
      DataEvent ''PPAP submission'' ''PPAP submission'' False None,
      DataEvent '' levels are'' ''PPAP submission levels are'' False None]"
  by (simp_all add: stream_def)



text \<open>
  The client of the source on the streams of the coordinator, when it stays connected:
  after a stream whose generation did not fail it has recorded the user's message and the
  full reply; after a failed one it shows the error and records nothing.
\<close>

lemma consume_chunkEvents:
  "\<exists>c'. consume message c (chunkEvents acc fragments @ rest) = consume message c' rest
        \<and> chatHistory c' = chatHistory c \<and> errorMessages c' = errorMessages c
        \<and> accumulatedResponse c' =
            (if fragments = [] \<or> acc @ concat fragments = [] then accumulatedResponse c
             else acc @ concat fragments)"
proof (induction fragments arbitrary: acc c)
  case Nil
  have "consume message c (chunkEvents acc [] @ rest) = consume message c rest
        \<and> chatHistory c = chatHistory c \<and> errorMessages c = errorMessages c
        \<and> accumulatedResponse c =
            (if [] = ([] :: string list) \<or> acc @ concat [] = [] then accumulatedResponse c
             else acc @ concat [])"
    by simp
  then show ?case ..
next
  case (Cons f fs)
  define c1 where "c1 = (if f \<noteq> [] \<and> messageElement c = None then c\<lparr>messageElement := Some []\<rparr> else c)"
  define c2 where "c2 = (if acc @ f \<noteq> []
                then c1\<lparr>accumulatedResponse := acc @ f,
                        messageElement := map_option (\<lambda>shown. acc @ f) (messageElement c1)\<rparr>
                else c1)"
  have step: "consume message c (chunkEvents acc (f # fs) @ rest) =
              consume message c2 (chunkEvents (acc @ f) fs @ rest)"
    by (simp add: c1_def c2_def Let_def)
  have keep: "chatHistory c2 = chatHistory c" "errorMessages c2 = errorMessages c"
    "accumulatedResponse c2 = (if acc @ f \<noteq> [] then acc @ f else accumulatedResponse c)"
    by (simp_all add: c1_def c2_def)
  from Cons.IH [of c2 "acc @ f"] obtain c' where
    c': "consume message c2 (chunkEvents (acc @ f) fs @ rest) = consume message c' rest"
      "chatHistory c' = chatHistory c2" "errorMessages c' = errorMessages c2"
      "accumulatedResponse c' =
            (if fs = [] \<or> (acc @ f) @ concat fs = [] then accumulatedResponse c2
             else (acc @ f) @ concat fs)"
    by (elim exE conjE)
  have "consume message c (chunkEvents acc (f # fs) @ rest) = consume message c' rest
        \<and> chatHistory c' = chatHistory c \<and> errorMessages c' = errorMessages c
        \<and> accumulatedResponse c' =
            (if f # fs = [] \<or> acc @ concat (f # fs) = [] then accumulatedResponse c
             else acc @ concat (f # fs))"
    using step c' keep by (cases "fs = []") auto
  then show ?case ..
qed

lemma handleStreamingChat_records_reply:
  "chatHistory (consume message c (stream sid fragments None md sae None)) =
     chatHistory c @
     [(''user'', message),
      (''assistant'', if concat fragments = [] then accumulatedResponse c else concat fragments)]"
proof -
  let ?rest = "[DataEvent [] (concat fragments) True (Some md), DoneSentinel]"
  let ?c0 = "consume message c [StatusEvent ''retrieving'' sid]"
  define c0 where "c0 = (if sid \<noteq> [] \<and> falsy (clientSessionId c) then c\<lparr>clientSessionId := Some sid\<rparr> else c)"
  have k0: "chatHistory c0 = chatHistory c" "accumulatedResponse c0 = accumulatedResponse c"
    "sid \<noteq> [] \<longrightarrow> \<not> falsy (clientSessionId c0)"
    by (auto simp: c0_def)
  have s: "consume message c (stream sid fragments None md sae None) =
           consume message c0 (chunkEvents [] fragments @ ?rest)"
    using k0(3) by (auto simp: stream_def c0_def)
  from consume_chunkEvents [of message c0 "[]" fragments ?rest] obtain c' where
    c': "consume message c0 (chunkEvents [] fragments @ ?rest) = consume message c' ?rest"
      "chatHistory c' = chatHistory c0"
      "accumulatedResponse c' =
            (if fragments = [] \<or> [] @ concat fragments = [] then accumulatedResponse c0
             else [] @ concat fragments)"
    by (elim exE conjE)
  show ?thesis
    unfolding s c'(1) using c'(2) c'(3) k0 by (auto simp: Let_def)
qed

lemma handleStreamingChat_shows_error:
  "msg \<noteq> [] \<Longrightarrow>
     chatHistory (consume message c (stream sid fragments (Some msg) md sae None)) = chatHistory c
     \<and> errorMessages (consume message c (stream sid fragments (Some msg) md sae None)) =
         errorMessages c @ [msg]"
proof -
  assume m: "msg \<noteq> []"
  let ?rest = "ErrorEvent msg # (if sae then [DoneSentinel] else [])"
  define c0 where "c0 = (if sid \<noteq> [] \<and> falsy (clientSessionId c) then c\<lparr>clientSessionId := Some sid\<rparr> else c)"
  have k0: "chatHistory c0 = chatHistory c" "errorMessages c0 = errorMessages c"
    "sid \<noteq> [] \<longrightarrow> \<not> falsy (clientSessionId c0)"
    by (auto simp: c0_def)
  have s: "consume message c (stream sid fragments (Some msg) md sae None) =
           consume message c0 (chunkEvents [] fragments @ ?rest)"
    using k0(3) by (auto simp: stream_def c0_def)
  from consume_chunkEvents [of message c0 "[]" fragments ?rest] obtain c' where
    c': "consume message c0 (chunkEvents [] fragments @ ?rest) = consume message c' ?rest"
      "chatHistory c' = chatHistory c0" "errorMessages c' = errorMessages c0"
    by (elim exE conjE)
  show ?thesis
    unfolding s c'(1) using c'(2) c'(3) k0 m by simp
qed

end
